theory Spec2Isabelle
  imports Complex_Main "HOL-Library.Log_Nat"
begin

section \<open>JavaScript numbers\<close>

text \<open>
  A JavaScript number is an IEEE-754 binary64 value. The service divides and multiplies
  two array lengths and a constant, so the values that occur are finite and far from the
  ends of the exponent range; they are modelled as the rationals they denote, and every
  arithmetic operation rounds its exact result to the nearest value with a 53-bit
  significand, ties to the even significand. Overflow, subnormals, NaN and the sign of
  zero are not modelled: a quotient of two lengths below \<open>2 ^ 32\<close> and its product
  with 100 never reach them, and the code divides only by a positive length.
\<close>

type_synonym js_number = rat

definition round_ties_even :: "rat \<Rightarrow> int" where
  "round_ties_even x =
     (let f = \<lfloor>x\<rfloor>; r = x - of_int f
      in if r < 1 / 2 then f else if 1 / 2 < r then f + 1 else if even f then f else f + 1)"

text \<open>\<open>ilog2 x\<close> is the binary exponent of a positive rational: \<open>2 ^ e \<le> x < 2 ^ (e + 1)\<close>.\<close>

definition ilog2 :: "rat \<Rightarrow> int" where
  "ilog2 x =
     (let (p, q) = quotient_of x; d = bitlen p - bitlen q
      in if 2 powi d \<le> x then d else d - 1)"

definition binary64 :: "rat \<Rightarrow> js_number" where
  "binary64 x =
     (if x = 0 then 0
      else let u = 2 powi (ilog2 \<bar>x\<bar> - 52)
           in sgn x * of_int (round_ties_even (\<bar>x\<bar> / u)) * u)"

definition js_div :: "js_number \<Rightarrow> js_number \<Rightarrow> js_number" where
  "js_div x y = binary64 (x / y)"

definition js_mul :: "js_number \<Rightarrow> js_number \<Rightarrow> js_number" where
  "js_mul x y = binary64 (x * y)"

text \<open>
  \<open>x || d\<close> on an optional number: the default replaces \<open>undefined\<close>, \<open>null\<close>
  and also the falsy number 0.
\<close>

definition js_or :: "'a::zero option \<Rightarrow> 'a \<Rightarrow> 'a" where
  "js_or x d = (case x of None \<Rightarrow> d | Some v \<Rightarrow> if v = 0 then d else v)"

text \<open>\<open>x || false\<close> on an optional boolean.\<close>

definition js_or_false :: "bool option \<Rightarrow> bool" where
  "js_or_false x = (case x of None \<Rightarrow> False | Some b \<Rightarrow> b)"

section \<open>Data model\<close>

text \<open>
  Identifiers are UUID strings produced by the database; the code only compares them
  for equality, so they are natural numbers here and the store hands them out from a
  counter. Timestamps are points of one time axis, counted in the resolution of the
  database's clock.
\<close>

type_synonym uuid = nat
type_synonym timestamp = nat

datatype question_type = Multiple_choice | True_false | Text

datatype formation_type = Video | Ppt | Pdf | Article

datatype formation_status = Draft | Active | Inactive

subsection \<open>Rows of the tables\<close>

record formation =
  f_id :: uuid
  f_organization_id :: uuid
  f_name :: string
  f_type :: formation_type
  f_description :: "string option"
  f_duration_minutes :: int
  f_status :: formation_status
  f_file_url :: "string option"
  f_file_name :: "string option"
  f_file_size :: "int option"
  f_created_by :: uuid
  f_created_at :: timestamp
  f_updated_at :: timestamp

record quiz_row =
  z_id :: uuid
  z_formation_id :: uuid
  z_title :: "string option"
  z_description :: "string option"
  z_passing_score :: "int option"
  z_max_attempts :: "int option"
  z_time_limit_minutes :: "int option"

record question_row =
  q_id :: uuid
  q_quiz_id :: uuid
  q_question_text :: "string option"
  q_question_type :: question_type
  q_points :: nat
  q_order_index :: nat

record answer_row =
  a_id :: uuid
  a_question_id :: uuid
  a_answer_text :: "string option"
  a_is_correct :: bool
  a_order_index :: nat

text \<open>One submitted answer, as \<open>submitQuizSchema\<close> shapes it.\<close>

record submitted_answer =
  questionId :: uuid
  answerId :: "uuid option"
  textAnswer :: "string option"

record user_quiz_result =
  r_id :: uuid
  r_user_id :: uuid
  r_quiz_id :: uuid
  score :: js_number
  total_questions :: nat
  correct_answers :: nat
  time_taken_minutes :: "js_number option"
  passed :: bool
  attempt_number :: int
  answers_data :: "submitted_answer list"

subsection \<open>The quiz graph that \<open>getQuizById\<close> selects\<close>

record quiz_answer =
  qa_id :: uuid
  answer_text :: "string option"
  is_correct :: bool
  qa_order_index :: nat

record quiz_question =
  qq_id :: uuid
  question_text :: "string option"
  question_type :: question_type
  points :: nat
  qq_order_index :: nat
  quiz_answers :: "quiz_answer list option"

record quiz =
  quiz_id :: uuid
  formation_id :: uuid
  title :: "string option"
  description :: "string option"
  passing_score :: "int option"
  max_attempts :: "int option"
  time_limit_minutes :: "int option"
  quiz_questions :: "quiz_question list option"

section \<open>The persistence service\<close>

text \<open>
  The hosted database is a record of its tables. Every query of the client returns
  either data or an error object with a message; it does not throw. Which calls fail
  is the environment's choice: \<open>outages\<close> lists, for the calls still to come, whether
  the call fails and with which message. An empty list is a healthy service. Column
  types, foreign keys and NOT NULL constraints of the SQL scripts are not modelled: a
  row is stored as the code sends it. \<open>db_clock\<close> is the latest reading of the
  database's clock that a statement has stamped a formation with (\<open>DEFAULT NOW()\<close> on
  insert, the trigger \<open>update_formations_updated_at\<close> on update).
\<close>

record world =
  formations :: "formation list"
  quizzes :: "quiz_row list"
  quiz_questions_table :: "question_row list"
  quiz_answers_table :: "answer_row list"
  user_quiz_results :: "user_quiz_result list"
  next_id :: uuid
  outages :: "string option list"
  db_clock :: timestamp

datatype pg_error = PgError (pg_message: string)

definition pg_next :: "world \<Rightarrow> string option \<times> world" where
  "pg_next w =
     (case outages w of
        [] \<Rightarrow> (None, w)
      | f # fs \<Rightarrow> (f, w\<lparr>outages := fs\<rparr>))"

text \<open>The tables of two worlds agree (the environment's schedule apart).\<close>

definition same_tables :: "world \<Rightarrow> world \<Rightarrow> bool" where
  "same_tables w w' \<longleftrightarrow>
     formations w' = formations w \<and> quizzes w' = quizzes w \<and>
     quiz_questions_table w' = quiz_questions_table w \<and>
     quiz_answers_table w' = quiz_answers_table w \<and>
     user_quiz_results w' = user_quiz_results w \<and> next_id w' = next_id w"

text \<open>\<open>.single()\<close>: exactly one row, or the client reports an error.\<close>

definition single_row_message :: string where
  "single_row_message = ''JSON object requested, multiple (or no) rows returned''"

definition single :: "'a list \<Rightarrow> pg_error + 'a" where
  "single rows = (case rows of [r] \<Rightarrow> Inr r | _ \<Rightarrow> Inl (PgError single_row_message))"

subsection \<open>Embedding the questions and answers of a quiz\<close>

definition select_answer :: "answer_row \<Rightarrow> quiz_answer" where
  "select_answer a =
     \<lparr>qa_id = a_id a, answer_text = a_answer_text a, is_correct = a_is_correct a,
      qa_order_index = a_order_index a\<rparr>"

definition select_question :: "world \<Rightarrow> question_row \<Rightarrow> quiz_question" where
  "select_question w q =
     \<lparr>qq_id = q_id q, question_text = q_question_text q, question_type = q_question_type q,
      points = q_points q, qq_order_index = q_order_index q,
      quiz_answers =
        Some (map select_answer (filter (\<lambda>a. a_question_id a = q_id q) (quiz_answers_table w)))\<rparr>"

definition select_quiz :: "world \<Rightarrow> quiz_row \<Rightarrow> quiz" where
  "select_quiz w z =
     \<lparr>quiz_id = z_id z, formation_id = z_formation_id z, title = z_title z,
      description = z_description z, passing_score = z_passing_score z,
      max_attempts = z_max_attempts z, time_limit_minutes = z_time_limit_minutes z,
      quiz_questions =
        Some (map (select_question w)
               (filter (\<lambda>q. q_quiz_id q = z_id z) (quiz_questions_table w)))\<rparr>"

section \<open>FormationService: quizzes and quiz results\<close>

text \<open>
  A thrown JavaScript exception: an \<open>Error\<close> with its message, or a \<open>ZodError\<close>
  with its list of issues.
\<close>

datatype js_error = Error (error_message: string) | ZodError (issues: "string list")

text \<open>
  \<open>getQuizById\<close>: any error of the query, a missing row included, gives \<open>null\<close>. The
  embedded formation of the quiz is left out: nothing reads it.
\<close>

definition getQuizById :: "uuid \<Rightarrow> world \<Rightarrow> quiz option \<times> world" where
  "getQuizById quizId w =
     (case pg_next w of
        (Some m, w1) \<Rightarrow> (None, w1)
      | (None, w1) \<Rightarrow>
          (case single (map (select_quiz w1) (filter (\<lambda>z. z_id z = quizId) (quizzes w1))) of
             Inl error \<Rightarrow> (None, w1)
           | Inr data \<Rightarrow> (Some data, w1)))"

text \<open>The body of the \<open>forEach\<close> over the questions, with the counter it increments.\<close>

definition score_question :: "submitted_answer list \<Rightarrow> nat \<Rightarrow> quiz_question \<Rightarrow> nat" where
  "score_question answers correctAnswers question =
     (case find (\<lambda>a. questionId a = qq_id question) answers of
        None \<Rightarrow> correctAnswers
      | Some userAnswer \<Rightarrow>
          (case quiz_answers question of
             None \<Rightarrow> correctAnswers
           | Some qas \<Rightarrow>
               (case find is_correct qas of
                  None \<Rightarrow> correctAnswers
                | Some correctAnswer \<Rightarrow>
                    if answerId userAnswer = Some (qa_id correctAnswer)
                    then correctAnswers + 1 else correctAnswers)))"

definition count_correct :: "quiz \<Rightarrow> submitted_answer list \<Rightarrow> nat" where
  "count_correct q answers =
     (case quiz_questions q of
        None \<Rightarrow> 0
      | Some questions \<Rightarrow> foldl (score_question answers) 0 questions)"

definition count_questions :: "quiz \<Rightarrow> nat" where
  "count_questions q = (case quiz_questions q of None \<Rightarrow> 0 | Some questions \<Rightarrow> length questions)"

definition compute_score :: "nat \<Rightarrow> nat \<Rightarrow> js_number" where
  "compute_score correctAnswers totalQuestions =
     (if totalQuestions > 0
      then js_mul (js_div (of_nat correctAnswers) (of_nat totalQuestions)) 100
      else 0)"

definition compute_passed :: "js_number \<Rightarrow> quiz \<Rightarrow> bool" where
  "compute_passed s q \<longleftrightarrow> s \<ge> of_int (js_or (passing_score q) 70)"

text \<open>
  The query for the previous attempts: the rows of the user on the quiz, highest
  \<open>attempt_number\<close> first, at most one. Only \<open>data\<close> is read; a failed query leaves it
  \<open>null\<close>.
\<close>

definition attempts_of :: "uuid \<Rightarrow> uuid \<Rightarrow> user_quiz_result list \<Rightarrow> user_quiz_result list" where
  "attempts_of userId quizId rows = filter (\<lambda>r. r_user_id r = userId \<and> r_quiz_id r = quizId) rows"

definition select_previous_attempts ::
  "uuid \<Rightarrow> uuid \<Rightarrow> world \<Rightarrow> int list option \<times> world" where
  "select_previous_attempts userId quizId w =
     (case pg_next w of
        (Some m, w1) \<Rightarrow> (None, w1)
      | (None, w1) \<Rightarrow>
          (Some (take 1 (rev (sort (map attempt_number
                   (attempts_of userId quizId (user_quiz_results w1)))))), w1))"

definition next_attempt_number :: "int list option \<Rightarrow> int" where
  "next_attempt_number previousAttempts =
     (case previousAttempts of
        Some (n # _) \<Rightarrow> n + 1
      | _ \<Rightarrow> 1)"

definition insert_result :: "user_quiz_result \<Rightarrow> world \<Rightarrow> (pg_error + user_quiz_result) \<times> world" where
  "insert_result row w =
     (case pg_next w of
        (Some m, w1) \<Rightarrow> (Inl (PgError m), w1)
      | (None, w1) \<Rightarrow>
          (let data = row\<lparr>r_id := next_id w1\<rparr>
           in (Inr data,
               w1\<lparr>user_quiz_results := user_quiz_results w1 @ [data],
                  next_id := next_id w1 + 1\<rparr>)))"

definition quiz_non_trouve :: string where
  "quiz_non_trouve = ''Quiz non trouv'' @ [CHR 0xC3, CHR 0xA9]"

definition submitQuizResult ::
  "uuid \<Rightarrow> uuid \<Rightarrow> submitted_answer list \<Rightarrow> js_number option \<Rightarrow> world
     \<Rightarrow> (js_error + user_quiz_result) \<times> world" where
  "submitQuizResult userId quizId answers timeSpent w =
     (case getQuizById quizId w of
        (None, w1) \<Rightarrow> (Inl (Error quiz_non_trouve), w1)
      | (Some q, w1) \<Rightarrow>
          (let correctAnswers = count_correct q answers;
               totalQuestions = count_questions q;
               score = compute_score correctAnswers totalQuestions;
               passed = compute_passed score q
           in case select_previous_attempts userId quizId w1 of
                (previousAttempts, w2) \<Rightarrow>
                  (case insert_result
                          \<lparr>r_id = 0, r_user_id = userId, r_quiz_id = quizId, score = score,
                           total_questions = totalQuestions, correct_answers = correctAnswers,
                           time_taken_minutes = timeSpent, passed = passed,
                           attempt_number = next_attempt_number previousAttempts,
                           answers_data = answers\<rparr> w2 of
                     (Inl error, w3) \<Rightarrow>
                       (Inl (Error (''Erreur lors de la soumission du quiz: '' @ pg_message error)),
                        w3)
                   | (Inr data, w3) \<Rightarrow> (Inr data, w3))))"

subsection \<open>The scoring in the words of the specification\<close>

text \<open>
  The submitted answer of a question is the first entry of the submission with its
  \<open>questionId\<close>; the designated correct answer of a question is its first answer
  flagged \<open>is_correct\<close>. A question is answered correctly when both exist and the
  submitted \<open>answerId\<close> is the id of the designated answer.
\<close>

definition questions_of :: "quiz \<Rightarrow> quiz_question list" where
  "questions_of q = (case quiz_questions q of None \<Rightarrow> [] | Some questions \<Rightarrow> questions)"

definition submitted_for :: "submitted_answer list \<Rightarrow> uuid \<Rightarrow> submitted_answer option" where
  "submitted_for answers qid = find (\<lambda>a. questionId a = qid) answers"

definition correct_answer_of :: "quiz_question \<Rightarrow> quiz_answer option" where
  "correct_answer_of question =
     (case quiz_answers question of None \<Rightarrow> None | Some qas \<Rightarrow> find is_correct qas)"

definition answered_correctly :: "submitted_answer list \<Rightarrow> quiz_question \<Rightarrow> bool" where
  "answered_correctly answers question \<longleftrightarrow>
     (case submitted_for answers (qq_id question) of
        None \<Rightarrow> False
      | Some ua \<Rightarrow>
          (case correct_answer_of question of
             None \<Rightarrow> False
           | Some ca \<Rightarrow> answerId ua = Some (qa_id ca)))"

text \<open>The same quiz with other points on its questions.\<close>

definition repoint :: "(question_row \<Rightarrow> nat) \<Rightarrow> world \<Rightarrow> world" where
  "repoint f w =
     w\<lparr>quiz_questions_table := map (\<lambda>q. q\<lparr>q_points := f q\<rparr>) (quiz_questions_table w)\<rparr>"

text \<open>The same quiz with other question types, and the same submission with other texts.\<close>

definition retype :: "(quiz_question \<Rightarrow> question_type) \<Rightarrow> quiz \<Rightarrow> quiz" where
  "retype f q =
     q\<lparr>quiz_questions :=
          map_option (map (\<lambda>x. x\<lparr>question_type := f x\<rparr>)) (quiz_questions q)\<rparr>"

definition retext ::
  "(submitted_answer \<Rightarrow> string option) \<Rightarrow> submitted_answer list \<Rightarrow> submitted_answer list" where
  "retext g answers = map (\<lambda>a. a\<lparr>textAnswer := g a\<rparr>) answers"

text \<open>A run of submissions, one after the other: user, quiz, answers, time spent.\<close>

type_synonym submission = "uuid \<times> uuid \<times> submitted_answer list \<times> js_number option"

fun submit_all :: "submission list \<Rightarrow> world \<Rightarrow> (js_error + user_quiz_result) list \<times> world" where
  "submit_all [] w = ([], w)"
| "submit_all ((userId, quizId, answers, timeSpent) # rest) w =
     (case submitQuizResult userId quizId answers timeSpent w of
        (res, w1) \<Rightarrow> (case submit_all rest w1 of (ress, w2) \<Rightarrow> (res # ress, w2)))"

definition recorded_by :: "uuid \<Rightarrow> uuid \<Rightarrow> (js_error + user_quiz_result) list \<Rightarrow> user_quiz_result list" where
  "recorded_by userId quizId ress =
     attempts_of userId quizId (concat (map (\<lambda>res. case res of Inl e \<Rightarrow> [] | Inr r \<Rightarrow> [r]) ress))"

section \<open>FormationService: formations\<close>

text \<open>
  \<open>getFormationById\<close> selects the formation with its quizzes embedded (the embedded
  profile of the creator is left out: the profiles table is not part of this model).
  A promise can reject, so the result is a sum whose left side is the message of the
  error thrown; the code itself returns \<open>null\<close> from its error branch.
\<close>

definition getFormationById ::
  "uuid \<Rightarrow> world \<Rightarrow> (string + (formation \<times> quiz list) option) \<times> world" where
  "getFormationById formationId w =
     (case pg_next w of
        (Some m, w1) \<Rightarrow> (Inr None, w1)
      | (None, w1) \<Rightarrow>
          (case single
                  (map (\<lambda>f. (f, map (select_quiz w1)
                                  (filter (\<lambda>z. z_formation_id z = f_id f) (quizzes w1))))
                     (filter (\<lambda>f. f_id f = formationId) (formations w1))) of
             Inl error \<Rightarrow> (Inr None, w1)
           | Inr data \<Rightarrow> (Inr (Some data), w1)))"







section \<open>FormationService: quiz authoring\<close>

text \<open>\<open>Partial<Quiz>\<close>, \<open>Partial<QuizQuestion>\<close> and \<open>Partial<QuizAnswer>\<close>, with the nested lists
  that \<open>createQuizSchema\<close> adds.\<close>

record answer_input =
  ai_answer_text :: "string option"
  ai_is_correct :: "bool option"
  ai_order_index :: "nat option"

record question_input =
  qi_question_text :: "string option"
  qi_question_type :: "question_type option"
  qi_points :: "nat option"
  qi_order_index :: "nat option"
  qi_answers :: "answer_input list"

record quiz_input =
  zi_title :: "string option"
  zi_description :: "string option"
  zi_passing_score :: "int option"
  zi_max_attempts :: "int option"
  zi_time_limit_minutes :: "int option"
  zi_questions :: "question_input list"

definition quiz_failed :: string where
  "quiz_failed = ''Erreur lors de la cr'' @ [CHR 0xC3, CHR 0xA9] @ ''ation du quiz: ''"

definition questions_failed :: string where
  "questions_failed = ''Erreur lors de l'' @ [CHR 0x27] @ ''ajout des questions: ''"

definition answers_failed :: string where
  "answers_failed =
     ''Erreur lors de l'' @ [CHR 0x27] @ ''ajout des r'' @ [CHR 0xC3, CHR 0xA9] @ ''ponses: ''"

definition createQuiz :: "uuid \<Rightarrow> quiz_input \<Rightarrow> world \<Rightarrow> (js_error + quiz_row) \<times> world" where
  "createQuiz formationId quizData w =
     (case pg_next w of
        (Some m, w1) \<Rightarrow> (Inl (Error (quiz_failed @ m)), w1)
      | (None, w1) \<Rightarrow>
          (let data =
                 \<lparr>z_id = next_id w1, z_formation_id = formationId, z_title = zi_title quizData,
                  z_description = zi_description quizData,
                  z_passing_score = Some (js_or (zi_passing_score quizData) 70),
                  z_max_attempts = Some (js_or (zi_max_attempts quizData) 3),
                  z_time_limit_minutes = zi_time_limit_minutes quizData\<rparr>
           in (Inr data, w1\<lparr>quizzes := quizzes w1 @ [data], next_id := next_id w1 + 1\<rparr>)))"

text \<open>\<open>questions.map((q, index) => ...)\<close>: the rows to insert, before the database gives
  them their ids.\<close>

definition questionsToInsert :: "uuid \<Rightarrow> question_input list \<Rightarrow> question_row list" where
  "questionsToInsert quizId questions =
     map (\<lambda>(index, q).
           \<lparr>q_id = 0, q_quiz_id = quizId, q_question_text = qi_question_text q,
            q_question_type =
              (case qi_question_type q of None \<Rightarrow> Multiple_choice | Some t \<Rightarrow> t),
            q_points = js_or (qi_points q) 1,
            q_order_index = js_or (qi_order_index q) index\<rparr>)
       (enumerate 0 questions)"

definition addQuizQuestions ::
  "uuid \<Rightarrow> question_input list \<Rightarrow> world \<Rightarrow> (js_error + question_row list) \<times> world" where
  "addQuizQuestions quizId questions w =
     (case pg_next w of
        (Some m, w1) \<Rightarrow> (Inl (Error (questions_failed @ m)), w1)
      | (None, w1) \<Rightarrow>
          (let data = map (\<lambda>(i, row). row\<lparr>q_id := next_id w1 + i\<rparr>)
                        (enumerate 0 (questionsToInsert quizId questions))
           in (Inr data,
               w1\<lparr>quiz_questions_table := quiz_questions_table w1 @ data,
                  next_id := next_id w1 + length data\<rparr>)))"

definition answersToInsert :: "uuid \<Rightarrow> answer_input list \<Rightarrow> answer_row list" where
  "answersToInsert questionId' answers =
     map (\<lambda>(index, a).
           \<lparr>a_id = 0, a_question_id = questionId', a_answer_text = ai_answer_text a,
            a_is_correct = js_or_false (ai_is_correct a),
            a_order_index = js_or (ai_order_index a) index\<rparr>)
       (enumerate 0 answers)"

definition addQuizAnswers ::
  "uuid \<Rightarrow> answer_input list \<Rightarrow> world \<Rightarrow> (js_error + answer_row list) \<times> world" where
  "addQuizAnswers questionId' answers w =
     (case pg_next w of
        (Some m, w1) \<Rightarrow> (Inl (Error (answers_failed @ m)), w1)
      | (None, w1) \<Rightarrow>
          (let data = map (\<lambda>(i, row). row\<lparr>a_id := next_id w1 + i\<rparr>)
                        (enumerate 0 (answersToInsert questionId' answers))
           in (Inr data,
               w1\<lparr>quiz_answers_table := quiz_answers_table w1 @ data,
                  next_id := next_id w1 + length data\<rparr>)))"

section \<open>FormationController\<close>

text \<open>
  The response envelope with its HTTP status. A controller receives the outcome of
  \<open>schema.parse(req.body)\<close>: the validated data, or the issues of the \<open>ZodError\<close> that
  the parse throws.
\<close>

record 'a response =
  http_status :: nat
  success :: bool
  body_data :: "'a option"
  message :: string
  errors :: "string list option"

definition donnees_invalides :: string where
  "donnees_invalides = ''Donn'' @ [CHR 0xC3, CHR 0xA9] @ ''es invalides''"

text \<open>The \<open>catch\<close> block of a controller that validates a body; \<open>fallback\<close> is the
  message used when the error has none.\<close>

definition catch_error :: "js_error \<Rightarrow> string \<Rightarrow> 'a response" where
  "catch_error error fallback =
     (case error of
        ZodError is \<Rightarrow>
          \<lparr>http_status = 400, success = False, body_data = None, message = donnees_invalides,
           errors = Some is\<rparr>
      | Error m \<Rightarrow>
          \<lparr>http_status = 500, success = False, body_data = None,
           message = (if m = [] then fallback else m), errors = None\<rparr>)"

record submit_dto =
  dto_answers :: "submitted_answer list"
  dto_timeSpent :: "js_number option"

definition quiz_soumis :: string where
  "quiz_soumis = ''Quiz soumis avec succ'' @ [CHR 0xC3, CHR 0xA8] @ ''s''"

definition FormationController_submitQuiz ::
  "uuid \<Rightarrow> uuid \<Rightarrow> string list + submit_dto \<Rightarrow> world \<Rightarrow> user_quiz_result response \<times> world" where
  "FormationController_submitQuiz quizId userId parsed w =
     (case parsed of
        Inl is \<Rightarrow> (catch_error (ZodError is) ''Erreur lors de la soumission du quiz'', w)
      | Inr validatedData \<Rightarrow>
          (case submitQuizResult userId quizId (dto_answers validatedData)
                  (dto_timeSpent validatedData) w of
             (Inl error, w1) \<Rightarrow> (catch_error error ''Erreur lors de la soumission du quiz'', w1)
           | (Inr result, w1) \<Rightarrow>
               (\<lparr>http_status = 200, success = True, body_data = Some result,
                 message = quiz_soumis, errors = None\<rparr>, w1)))"

definition formation_non_trouvee :: string where
  "formation_non_trouvee = ''Formation non trouv'' @ [CHR 0xC3, CHR 0xA9] @ ''e''"

definition formation_recuperee :: string where
  "formation_recuperee =
     ''Formation r'' @ [CHR 0xC3, CHR 0xA9] @ ''cup'' @ [CHR 0xC3, CHR 0xA9] @ ''r''
       @ [CHR 0xC3, CHR 0xA9] @ ''e avec succ'' @ [CHR 0xC3, CHR 0xA8] @ ''s''"

definition recuperation_failed :: string where
  "recuperation_failed =
     ''Erreur lors de la r'' @ [CHR 0xC3, CHR 0xA9] @ ''cup'' @ [CHR 0xC3, CHR 0xA9]
       @ ''ration de la formation''"

definition formation_not_found :: "(formation \<times> quiz list) response" where
  "formation_not_found =
     \<lparr>http_status = 404, success = False, body_data = None, message = formation_non_trouvee,
      errors = None\<rparr>"

definition FormationController_getFormationById ::
  "uuid \<Rightarrow> world \<Rightarrow> (formation \<times> quiz list) response \<times> world" where
  "FormationController_getFormationById id' w =
     (case getFormationById id' w of
        (Inl m, w1) \<Rightarrow>
          (\<lparr>http_status = 500, success = False, body_data = None,
            message = (if m = [] then recuperation_failed else m), errors = None\<rparr>, w1)
      | (Inr None, w1) \<Rightarrow> (formation_not_found, w1)
      | (Inr (Some formation), w1) \<Rightarrow>
          (\<lparr>http_status = 200, success = True, body_data = Some formation,
            message = formation_recuperee, errors = None\<rparr>, w1))"

text \<open>The loop of \<open>createQuiz\<close> over the validated questions: each question is added by
  a call of its own, then its answers.\<close>

fun add_questions :: "uuid \<Rightarrow> question_input list \<Rightarrow> world \<Rightarrow> (js_error + unit) \<times> world" where
  "add_questions quizId [] w = (Inr (), w)"
| "add_questions quizId (questionData # rest) w =
     (case addQuizQuestions quizId [questionData] w of
        (Inl error, w1) \<Rightarrow> (Inl error, w1)
      | (Inr questions, w1) \<Rightarrow>
          (case questions of
             [] \<Rightarrow> add_questions quizId rest w1
           | question # _ \<Rightarrow>
               (case addQuizAnswers (q_id question) (qi_answers questionData) w1 of
                  (Inl error, w2) \<Rightarrow> (Inl error, w2)
                | (Inr _, w2) \<Rightarrow> add_questions quizId rest w2)))"

definition quiz_cree :: string where
  "quiz_cree =
     ''Quiz cr'' @ [CHR 0xC3, CHR 0xA9, CHR 0xC3, CHR 0xA9] @ '' avec succ''
       @ [CHR 0xC3, CHR 0xA8] @ ''s''"

definition creation_failed :: string where
  "creation_failed = ''Erreur lors de la cr'' @ [CHR 0xC3, CHR 0xA9] @ ''ation du quiz''"

definition FormationController_createQuiz ::
  "uuid \<Rightarrow> string list + quiz_input \<Rightarrow> world \<Rightarrow> quiz option response \<times> world" where
  "FormationController_createQuiz id' parsed w =
     (case parsed of
        Inl is \<Rightarrow> (catch_error (ZodError is) creation_failed, w)
      | Inr validatedData \<Rightarrow>
          (case createQuiz id' validatedData w of
             (Inl error, w1) \<Rightarrow> (catch_error error creation_failed, w1)
           | (Inr q, w1) \<Rightarrow>
               (case add_questions (z_id q) (zi_questions validatedData) w1 of
                  (Inl error, w2) \<Rightarrow> (catch_error error creation_failed, w2)
                | (Inr _, w2) \<Rightarrow>
                    (case getQuizById (z_id q) w2 of
                       (completeQuiz, w3) \<Rightarrow>
                         (\<lparr>http_status = 201, success = True, body_data = Some completeQuiz,
                           message = quiz_cree, errors = None\<rparr>, w3)))))"

section \<open>A small organisation\<close>

text \<open>
  One formation with three quizzes. Quiz 10 has passing score 70 and two questions: a
  multiple-choice question 100 with the answers 1000 (correct) and 1001, and a text
  question 101 with the single answer 1010, flagged correct. Quiz 11 has no question
  and passing score 0; quiz 12 has no question and passing score 70.
\<close>

definition demo_formation :: formation where
  "demo_formation =
     \<lparr>f_id = 1, f_organization_id = 5, f_name = ''Onboarding'', f_type = Video,
      f_description = None, f_duration_minutes = 30, f_status = Active, f_file_url = None,
      f_file_name = None, f_file_size = None, f_created_by = 7, f_created_at = 4000,
      f_updated_at = 5000\<rparr>"

definition demo_quiz_row :: "uuid \<Rightarrow> int \<Rightarrow> quiz_row" where
  "demo_quiz_row i p =
     \<lparr>z_id = i, z_formation_id = 1, z_title = Some ''Quiz'', z_description = None,
      z_passing_score = Some p, z_max_attempts = Some 3, z_time_limit_minutes = None\<rparr>"

definition demo_world :: world where
  "demo_world =
     \<lparr>formations = [demo_formation],
      quizzes = [demo_quiz_row 10 70, demo_quiz_row 11 0, demo_quiz_row 12 70],
      quiz_questions_table =
        [\<lparr>q_id = 100, q_quiz_id = 10, q_question_text = Some ''Which one?'',
          q_question_type = Multiple_choice, q_points = 1, q_order_index = 0\<rparr>,
         \<lparr>q_id = 101, q_quiz_id = 10, q_question_text = Some ''Why?'',
          q_question_type = Text, q_points = 1, q_order_index = 1\<rparr>],
      quiz_answers_table =
        [\<lparr>a_id = 1000, a_question_id = 100, a_answer_text = Some ''This one'',
          a_is_correct = True, a_order_index = 0\<rparr>,
         \<lparr>a_id = 1001, a_question_id = 100, a_answer_text = Some ''That one'',
          a_is_correct = False, a_order_index = 1\<rparr>,
         \<lparr>a_id = 1010, a_question_id = 101, a_answer_text = Some ''Because'',
          a_is_correct = True, a_order_index = 0\<rparr>],
      user_quiz_results = [],
      next_id = 2000,
      outages = [],
      db_clock = 5000\<rparr>"

definition demo_quiz :: quiz where
  "demo_quiz = select_quiz demo_world (demo_quiz_row 10 70)"

definition pick :: "uuid \<Rightarrow> uuid \<Rightarrow> submitted_answer" where
  "pick q a = \<lparr>questionId = q, answerId = Some a, textAnswer = None\<rparr>"

definition write_text :: "uuid \<Rightarrow> string \<Rightarrow> submitted_answer" where
  "write_text q t = \<lparr>questionId = q, answerId = None, textAnswer = Some t\<rparr>"

text \<open>A request body for quiz creation: two questions without \<open>order_index\<close>; the second
  answer of each question asks for \<open>order_index\<close> 0.\<close>

definition demo_question_input :: "string \<Rightarrow> question_input" where
  "demo_question_input t =
     \<lparr>qi_question_text = Some t, qi_question_type = Some Multiple_choice, qi_points = Some 1,
      qi_order_index = None,
      qi_answers =
        [\<lparr>ai_answer_text = Some ''yes'', ai_is_correct = Some True, ai_order_index = None\<rparr>,
         \<lparr>ai_answer_text = Some ''no'', ai_is_correct = Some False, ai_order_index = Some 0\<rparr>]\<rparr>"

definition demo_quiz_input :: quiz_input where
  "demo_quiz_input =
     \<lparr>zi_title = Some ''New quiz'', zi_description = None, zi_passing_score = Some 70,
      zi_max_attempts = Some 3, zi_time_limit_minutes = None,
      zi_questions = [demo_question_input ''First'', demo_question_input ''Second'']\<rparr>"


text \<open>The rows that two submissions on quiz 10 record.\<close>

definition half_right :: user_quiz_result where
  "half_right =
     \<lparr>r_id = 2000, r_user_id = 7, r_quiz_id = 10, score = 50, total_questions = 2,
      correct_answers = 1, time_taken_minutes = None, passed = False, attempt_number = 1,
      answers_data = [pick 100 1000, write_text 101 ''because'']\<rparr>"

definition all_right :: user_quiz_result where
  "all_right =
     \<lparr>r_id = 2000, r_user_id = 7, r_quiz_id = 10, score = 100, total_questions = 2,
      correct_answers = 2, time_taken_minutes = Some 12, passed = True, attempt_number = 1,
      answers_data = [pick 100 1000, pick 101 1010]\<rparr>"

text \<open>The service is healthy when none of the calls still to come fails.\<close>

definition healthy :: "world \<Rightarrow> bool" where
  "healthy w \<longleftrightarrow> list_all (\<lambda>f. f = None) (outages w)"

text \<open>The rows that a run of submissions records, and rows numbered 1, 2, ... in order.\<close>

definition recorded :: "(js_error + user_quiz_result) list \<Rightarrow> user_quiz_result list" where
  "recorded ress = concat (map (\<lambda>res. case res of Inl e \<Rightarrow> [] | Inr r \<Rightarrow> [r]) ress)"

definition numbered :: "user_quiz_result list \<Rightarrow> bool" where
  "numbered rows \<longleftrightarrow> map attempt_number rows = [1..int (length rows)]"

definition highest_plus_one :: "int list \<Rightarrow> int" where
  "highest_plus_one ns = (if ns = [] then 1 else 1 + Max (set ns))"

text \<open>The organisation after user 7 has submitted once on quiz 10, and the row of the
  second submission of that user.\<close>

definition after_first_attempt :: world where
  "after_first_attempt =
     snd (submitQuizResult 7 10 [pick 100 1000, write_text 101 ''because''] None demo_world)"

definition second_attempt :: user_quiz_result where
  "second_attempt =
     \<lparr>r_id = 2001, r_user_id = 7, r_quiz_id = 10, score = 100, total_questions = 2,
      correct_answers = 2, time_taken_minutes = Some 12, passed = True, attempt_number = 2,
      answers_data = [pick 100 1000, pick 101 1010]\<rparr>"

text \<open>The submissions of one user on one quiz, one after the other.\<close>

definition by_user ::
  "uuid \<Rightarrow> uuid \<Rightarrow> (submitted_answer list \<times> js_number option) list \<Rightarrow> submission list" where
  "by_user userId quizId ats =
     map (\<lambda>(answers, timeSpent). (userId, quizId, answers, timeSpent)) ats"

text \<open>The same organisation when the fifth query to come fails.\<close>

definition flaky_world :: world where
  "flaky_world = demo_world\<lparr>outages := [None, None, None, None, Some ''timeout'']\<rparr>"

definition five_submissions :: "submission list" where
  "five_submissions =
     [(7, 10, [pick 100 1000], None), (7, 10, [], None), (8, 10, [], None),
      (7, 99, [], None), (7, 10, [pick 100 1001], Some 3)]"

section \<open>Scoring a submission\<close>

subsection \<open>Rounding\<close>

lemma binary64_1: "binary64 1 = 1"
  by code_simp

lemma binary64_100: "binary64 100 = 100"
  by code_simp

lemma compute_score_full: "0 < n \<Longrightarrow> compute_score n n = 100"
  by (simp add: compute_score_def js_div_def js_mul_def binary64_1 binary64_100)

text \<open>
  The exponent that \<open>ilog2\<close> computes is the right one, so \<open>binary64\<close> rounds a
  non-negative rational with a relative error of at most \<open>2 ^ -53\<close>, and the score
  is within \<open>2 ^ -51\<close>, relatively, of the exact percentage.
\<close>

lemma bitlen_pos: "0 < p \<Longrightarrow> 0 < bitlen p"
  using bitlen_nonneg [of p] bitlen_eq_zero_iff [of p] by linarith

lemma bitlen_powi:
  assumes "0 < p"
  shows "2 powi (bitlen p - 1) \<le> (of_int p :: rat)" "(of_int p :: rat) < 2 powi (bitlen p)"
proof -
  from bitlen_bounds [OF assms]
  have a: "2 ^ nat (bitlen p - 1) \<le> p" and b: "p < 2 ^ nat (bitlen p)" by simp_all
  have pos: "0 < bitlen p" using assms by (rule bitlen_pos)
  have "(of_int (2 ^ nat (bitlen p - 1)) :: rat) \<le> of_int p" using a by (simp only: of_int_le_iff)
  then show "2 powi (bitlen p - 1) \<le> (of_int p :: rat)"
    using pos by (simp add: power_int_def)
  have "(of_int p :: rat) < of_int (2 ^ nat (bitlen p))" using b by (simp only: of_int_less_iff)
  then show "(of_int p :: rat) < 2 powi (bitlen p)"
    using pos by (simp add: power_int_def)
qed

lemma round_ties_even_error: "\<bar>of_int (round_ties_even m) - m\<bar> \<le> 1 / 2"
proof -
  have "of_int \<lfloor>m\<rfloor> \<le> m" "m < of_int \<lfloor>m\<rfloor> + 1" by linarith+
  then show ?thesis
    by (auto simp: round_ties_even_def Let_def)
qed

lemma powi_quotient: "(2::rat) powi a / 2 powi b = 2 powi (a - b)"
  by (simp add: power_int_diff)

lemma ilog2_bounds:
  assumes "0 < x"
  shows "2 powi (ilog2 x) \<le> x \<and> x < 2 powi (ilog2 x + 1)"
proof -
  obtain p q where pq: "quotient_of x = (p, q)" by (cases "quotient_of x")
  have q: "0 < q" using pq by (rule quotient_of_denom_pos)
  have x: "x = of_int p / of_int q" using pq by (rule quotient_of_div)
  have qr: "(0::rat) < of_int q" using q by simp
  have "(0::rat) < of_int p" using assms qr x by (simp add: zero_less_divide_iff)
  then have p: "0 < p" by simp
  define a where "a = bitlen p"
  define b where "b = bitlen q"
  have pa: "2 powi (a - 1) \<le> (of_int p :: rat)" "(of_int p :: rat) < 2 powi a"
    using bitlen_powi [OF p] by (simp_all add: a_def)
  have qb: "2 powi (b - 1) \<le> (of_int q :: rat)" "(of_int q :: rat) < 2 powi b"
    using bitlen_powi [OF q] by (simp_all add: b_def)
  have pw: "(0::rat) < 2 powi k" for k by (simp add: zero_less_power_int)
  have up: "x < 2 powi (a - b + 1)"
  proof -
    have "x < 2 powi a / of_int q" unfolding x using pa(2) qr by (simp add: divide_strict_right_mono)
    also have "\<dots> \<le> 2 powi a / 2 powi (b - 1)"
      using qb(1) pw [of "b - 1"] pw [of a] qr by (intro divide_left_mono) simp_all
    also have "\<dots> = 2 powi (a - b + 1)" by (simp add: powi_quotient algebra_simps)
    finally show ?thesis .
  qed
  have lo: "2 powi (a - b - 1) \<le> x"
  proof -
    have "(2::rat) powi (a - b - 1) = 2 powi (a - 1) / 2 powi b"
      by (simp add: powi_quotient algebra_simps)
    also have "\<dots> \<le> of_int p / 2 powi b"
      using pa(1) pw [of b] by (simp add: divide_right_mono)
    also have "\<dots> \<le> of_int p / of_int q"
      using qb(2) qr p pw [of b] by (intro divide_left_mono) simp_all
    finally show ?thesis by (simp add: x)
  qed
  show ?thesis
  proof (cases "2 powi (a - b) \<le> x")
    case True
    then have "ilog2 x = a - b" by (simp add: ilog2_def pq a_def b_def)
    with True up show ?thesis by simp
  next
    case False
    then have "ilog2 x = a - b - 1" by (simp add: ilog2_def pq a_def b_def)
    with False lo show ?thesis by simp
  qed
qed

lemma binary64_error:
  assumes "0 \<le> x"
  shows "\<bar>binary64 x - x\<bar> \<le> x / 2 ^ 53"
proof (cases "x = 0")
  case True
  then show ?thesis by (simp add: binary64_def)
next
  case False
  with assms have x: "0 < x" by simp
  define u :: rat where "u = 2 powi (ilog2 x - 52)"
  define n :: rat where "n = of_int (round_ties_even (x / u))"
  have u: "0 < u" by (simp add: u_def zero_less_power_int)
  have b: "binary64 x = n * u"
    using x by (simp add: binary64_def u_def n_def Let_def)
  have "binary64 x - x = (n - x / u) * u"
    using u by (simp add: b left_diff_distrib)
  then have "\<bar>binary64 x - x\<bar> = \<bar>n - x / u\<bar> * u"
    using u by (simp add: abs_mult)
  also have "\<dots> \<le> 1 / 2 * u"
    using round_ties_even_error [of "x / u"] u unfolding n_def by (intro mult_right_mono) simp_all
  also have "\<dots> = 2 powi (ilog2 x) / 2 ^ 53"
    by (simp add: u_def power_int_diff)
  also have "\<dots> \<le> x / 2 ^ 53"
    using ilog2_bounds [OF x] by (simp add: divide_right_mono)
  finally show ?thesis .
qed

lemma binary64_nonneg:
  assumes "0 \<le> x"
  shows "0 \<le> binary64 x" "binary64 x \<le> 2 * x"
proof -
  have "x / 2 ^ 53 \<le> x" using assms by (simp add: divide_le_eq)
  with binary64_error [OF assms] show "0 \<le> binary64 x" "binary64 x \<le> 2 * x" by linarith+
qed

lemma js_percentage_error:
  assumes "0 \<le> y"
  shows "\<bar>js_mul (binary64 y) 100 - y * 100\<bar> \<le> y * 100 / 2 ^ 51"
proof -
  define a where "a = binary64 y"
  have a: "0 \<le> a" "a \<le> 2 * y" using binary64_nonneg [OF assms] by (simp_all add: a_def)
  have e1: "\<bar>a - y\<bar> \<le> y / 2 ^ 53" using binary64_error [OF assms] by (simp add: a_def)
  have "0 \<le> a * 100" using a by simp
  from binary64_error [OF this] have e2: "\<bar>binary64 (a * 100) - a * 100\<bar> \<le> a * 100 / 2 ^ 53" .
  also have "\<dots> \<le> 2 * y * 100 / 2 ^ 53" using a by (simp add: divide_right_mono)
  finally have e3: "\<bar>binary64 (a * 100) - a * 100\<bar> \<le> 2 * y * 100 / 2 ^ 53" .
  have "a * 100 - y * 100 = (a - y) * 100"
    by (simp add: algebra_simps)
  then have "\<bar>a * 100 - y * 100\<bar> = \<bar>a - y\<bar> * 100"
    by (simp only: abs_mult abs_numeral)
  then have "\<bar>binary64 (a * 100) - y * 100\<bar> \<le> \<bar>binary64 (a * 100) - a * 100\<bar> + \<bar>a - y\<bar> * 100"
    by linarith
  also have "\<dots> \<le> 2 * y * 100 / 2 ^ 53 + y / 2 ^ 53 * 100"
    using e1 e3 by (intro add_mono) simp_all
  also have "\<dots> \<le> y * 100 / 2 ^ 51" using assms by simp
  finally show ?thesis by (simp add: js_mul_def a_def)
qed

lemma compute_score_error:
  assumes "0 < t"
  shows "\<bar>compute_score c t - of_nat c / of_nat t * 100\<bar>
           \<le> of_nat c / of_nat t * 100 / 2 ^ 51"
proof -
  have "(0::rat) \<le> of_nat c / of_nat t" by simp
  from js_percentage_error [OF this] assms show ?thesis
    by (simp add: compute_score_def js_div_def)
qed

subsection \<open>The loop counts the questions answered correctly\<close>

lemma foldl_score_question:
  "foldl (score_question answers) n qs = n + length (filter (answered_correctly answers) qs)"
  by (induction qs arbitrary: n)
     (auto simp: score_question_def answered_correctly_def submitted_for_def correct_answer_of_def
           split: option.splits)

lemma count_correct_eq:
  "count_correct q answers = length (filter (answered_correctly answers) (questions_of q))"
  by (simp add: count_correct_def questions_of_def foldl_score_question split: option.splits)

lemma count_questions_eq: "count_questions q = length (questions_of q)"
  by (simp add: count_questions_def questions_of_def split: option.splits)

text \<open>
  When the submission has at most one entry for each question and the question at most
  one answer flagged correct, "the submitted answer" and "the answer flagged
  \<open>is_correct\<close>" need no choice of a first one.
\<close>

lemma find_unique:
  assumes "x \<in> set xs" "P x" "\<And>y. y \<in> set xs \<Longrightarrow> P y \<Longrightarrow> y = x"
  shows "find P xs = Some x"
proof (cases "find P xs")
  case None
  with assms(1,2) show ?thesis by (auto simp: find_None_iff)
next
  case (Some y)
  then have "y \<in> set xs" "P y" by (auto simp: find_Some_iff)
  with assms(3) Some show ?thesis by auto
qed

lemma answered_correctly_iff:
  assumes d: "distinct (map questionId answers)"
      and q: "quiz_answers question = Some qas"
      and u: "length (filter is_correct qas) \<le> 1"
  shows "answered_correctly answers question \<longleftrightarrow>
           (\<exists>ua \<in> set answers. \<exists>ca \<in> set qas.
              questionId ua = qq_id question \<and> is_correct ca \<and> answerId ua = Some (qa_id ca))"
proof
  assume "answered_correctly answers question"
  then obtain ua ca where "find (\<lambda>a. questionId a = qq_id question) answers = Some ua"
    "find is_correct qas = Some ca" "answerId ua = Some (qa_id ca)"
    by (auto simp: answered_correctly_def submitted_for_def correct_answer_of_def q
             split: option.splits)
  then show "\<exists>ua \<in> set answers. \<exists>ca \<in> set qas.
              questionId ua = qq_id question \<and> is_correct ca \<and> answerId ua = Some (qa_id ca)"
    by (auto simp: find_Some_iff) (metis nth_mem)
next
  assume "\<exists>ua \<in> set answers. \<exists>ca \<in> set qas.
              questionId ua = qq_id question \<and> is_correct ca \<and> answerId ua = Some (qa_id ca)"
  then obtain ua ca where a: "ua \<in> set answers" "ca \<in> set qas"
    "questionId ua = qq_id question" "is_correct ca" "answerId ua = Some (qa_id ca)"
    by blast
  have i: "inj_on questionId (set answers)" using d by (simp add: distinct_map)
  have "y = ua" if "y \<in> set answers" "questionId y = qq_id question" for y
    using that a(1,3) inj_onD [OF i, of y ua] by simp
  then have f: "find (\<lambda>a. questionId a = qq_id question) answers = Some ua"
    using a(1,3) by (rule_tac find_unique) blast+
  have c: "ca \<in> set (filter is_correct qas)" using a(2,4) by simp
  then obtain z where z: "filter is_correct qas = [z]"
    using u by (cases "filter is_correct qas") (auto simp: Suc_le_eq)
  have "y = ca" if "y \<in> set qas" "is_correct y" for y
  proof -
    from that have "y \<in> set (filter is_correct qas)" by simp
    with c z show ?thesis by simp
  qed
  then have g: "find is_correct qas = Some ca"
    using a(2,4) by (rule_tac find_unique) blast+
  show "answered_correctly answers question"
    by (simp add: answered_correctly_def submitted_for_def correct_answer_of_def q f g a(5))
qed

subsection \<open>What each query leaves of the tables\<close>

lemma pg_next_tables:
  assumes "pg_next w = (f, w1)"
  shows "formations w1 = formations w" "quizzes w1 = quizzes w"
    "quiz_questions_table w1 = quiz_questions_table w"
    "quiz_answers_table w1 = quiz_answers_table w"
    "user_quiz_results w1 = user_quiz_results w" "next_id w1 = next_id w"
    "outages w1 = tl (outages w)"
  using assms by (auto simp: pg_next_def split: list.splits)

lemma getQuizById_tables:
  assumes "getQuizById quizId w = (x, w1)"
  shows "formations w1 = formations w" "quizzes w1 = quizzes w"
    "quiz_questions_table w1 = quiz_questions_table w"
    "quiz_answers_table w1 = quiz_answers_table w"
    "user_quiz_results w1 = user_quiz_results w" "next_id w1 = next_id w"
    "outages w1 = tl (outages w)"
  using assms
  by (auto simp: getQuizById_def pg_next_tables split: prod.splits option.splits sum.splits)

lemma select_previous_attempts_tables:
  assumes "select_previous_attempts userId quizId w = (x, w1)"
  shows "formations w1 = formations w" "quizzes w1 = quizzes w"
    "quiz_questions_table w1 = quiz_questions_table w"
    "quiz_answers_table w1 = quiz_answers_table w"
    "user_quiz_results w1 = user_quiz_results w" "next_id w1 = next_id w"
    "outages w1 = tl (outages w)"
  using assms
  by (auto simp: select_previous_attempts_def pg_next_tables split: prod.splits option.splits)

lemma insert_result_Inr:
  assumes "insert_result row w = (Inr d, w1)"
  shows "d = row\<lparr>r_id := next_id w\<rparr>" "user_quiz_results w1 = user_quiz_results w @ [d]"
  using assms
  by (auto simp: insert_result_def pg_next_tables Let_def split: prod.splits option.splits)

subsection \<open>The row of a successful submission\<close>

lemma submitQuizResult_success:
  assumes g: "getQuizById quizId w = (Some q, w1)"
      and s: "submitQuizResult userId quizId answers timeSpent w = (Inr r, w')"
  shows "r = \<lparr>r_id = next_id w, r_user_id = userId, r_quiz_id = quizId,
              score = compute_score (count_correct q answers) (count_questions q),
              total_questions = count_questions q,
              correct_answers = count_correct q answers,
              time_taken_minutes = timeSpent,
              passed = compute_passed
                         (compute_score (count_correct q answers) (count_questions q)) q,
              attempt_number =
                next_attempt_number (fst (select_previous_attempts userId quizId w1)),
              answers_data = answers\<rparr> \<and>
         user_quiz_results w' = user_quiz_results w @ [r]"
proof -
  obtain prev w2 where p: "select_previous_attempts userId quizId w1 = (prev, w2)"
    by (cases "select_previous_attempts userId quizId w1")
  let ?row = "\<lparr>r_id = 0, r_user_id = userId, r_quiz_id = quizId,
              score = compute_score (count_correct q answers) (count_questions q),
              total_questions = count_questions q,
              correct_answers = count_correct q answers,
              time_taken_minutes = timeSpent,
              passed = compute_passed
                         (compute_score (count_correct q answers) (count_questions q)) q,
              attempt_number = next_attempt_number prev,
              answers_data = answers\<rparr>"
  from s have i: "insert_result ?row w2 = (Inr r, w')"
    by (auto simp: submitQuizResult_def g p Let_def split: prod.splits sum.splits)
  have "next_id w2 = next_id w" "user_quiz_results w2 = user_quiz_results w"
    using getQuizById_tables [OF g] select_previous_attempts_tables [OF p] by simp_all
  with insert_result_Inr [OF i] show ?thesis by (simp add: p)
qed

lemma demo_getQuizById: "getQuizById 10 demo_world = (Some demo_quiz, demo_world)"
  by (simp add: getQuizById_def pg_next_def demo_world_def demo_quiz_def single_def
        demo_quiz_row_def)

text \<open>
  C1. The row that a successful submission records carries the number of questions of
  the quiz as \<open>total_questions\<close>, the number of questions whose submitted \<open>answerId\<close> is
  the id of the question's answer flagged \<open>is_correct\<close> as \<open>correct_answers\<close>, and as
  score the value of \<open>correct_answers / total_questions * 100\<close> in JavaScript numbers,
  which is the exact percentage up to the rounding of the two operations; the score is
  0 when the quiz has no question.
\<close>

theorem submitQuizResult_score:
  assumes "getQuizById quizId w = (Some q, w1)"
      and "submitQuizResult userId quizId answers timeSpent w = (Inr r, w')"
  shows "user_quiz_results w' = user_quiz_results w @ [r] \<and>
         total_questions r = length (questions_of q) \<and>
         correct_answers r = length (filter (answered_correctly answers) (questions_of q)) \<and>
         score r =
           (if total_questions r = 0 then 0
            else js_mul (js_div (of_nat (correct_answers r)) (of_nat (total_questions r))) 100) \<and>
         (total_questions r \<noteq> 0 \<longrightarrow>
            \<bar>score r - of_nat (correct_answers r) / of_nat (total_questions r) * 100\<bar>
              \<le> of_nat (correct_answers r) / of_nat (total_questions r) * 100 / 2 ^ 51)"
proof -
  note r = submitQuizResult_success [OF assms]
  have "\<bar>compute_score (count_correct q answers) (count_questions q)
          - of_nat (count_correct q answers) / of_nat (count_questions q) * 100\<bar>
        \<le> of_nat (count_correct q answers) / of_nat (count_questions q) * 100 / 2 ^ 51"
    if "count_questions q \<noteq> 0"
    using that by (intro compute_score_error) simp
  with r show ?thesis
    by (simp add: count_correct_eq count_questions_eq compute_score_def)
qed

text \<open>One of two questions right on quiz 10: score 50, not passed.\<close>

theorem submitQuizResult_score_witness:
  "getQuizById 10 demo_world = (Some demo_quiz, demo_world) \<and>
   fst (submitQuizResult 7 10 [pick 100 1000, write_text 101 ''because''] None demo_world)
     = Inr half_right \<and>
   length (questions_of demo_quiz) = 2 \<and>
   length (filter (answered_correctly [pick 100 1000, write_text 101 ''because''])
             (questions_of demo_quiz)) = 1 \<and>
   score half_right = 50 \<and> js_mul (js_div 1 2) 100 = 50"
proof -
  let ?w' = "snd (submitQuizResult 7 10 [pick 100 1000, write_text 101 ''because''] None
                    demo_world)"
  have e: "fst (submitQuizResult 7 10 [pick 100 1000, write_text 101 ''because''] None
                  demo_world) = Inr half_right"
    by code_simp
  then have s: "submitQuizResult 7 10 [pick 100 1000, write_text 101 ''because''] None demo_world
             = (Inr half_right, ?w')"
    by (simp add: prod_eq_iff)
  have m: "js_mul (js_div 1 2) 100 = 50"
    by code_simp
  from submitQuizResult_score [OF demo_getQuizById s] m demo_getQuizById e
  show ?thesis by (simp add: half_right_def)
qed

subsection \<open>The pass mark\<close>

lemma submitQuizResult_passed:
  assumes "getQuizById quizId w = (Some q, w1)"
      and "submitQuizResult userId quizId answers timeSpent w = (Inr r, w')"
  shows "passed r \<longleftrightarrow> score r \<ge> of_int (js_or (passing_score q) 70)"
  using submitQuizResult_success [OF assms] by (simp add: compute_passed_def)

text \<open>
  C2. The pass mark that the score is compared with is \<open>quiz.passing_score || 70\<close>. On
  quiz 11, whose passing score is 0 and which has no question, a submission records
  score 0 and is not passed: the score is compared with 70.
\<close>

theorem submitQuizResult_passing_score_zero:
  "z_passing_score (demo_quiz_row 11 0) = Some 0 \<and>
   fst (submitQuizResult 7 11 [] None demo_world) =
     Inr \<lparr>r_id = 2000, r_user_id = 7, r_quiz_id = 11, score = 0, total_questions = 0,
          correct_answers = 0, time_taken_minutes = None, passed = False, attempt_number = 1,
          answers_data = []\<rparr>"
  by code_simp

subsection \<open>Full marks\<close>

text \<open>
  C3, as amended. On a quiz with at least one question and a passing score of at most
  100, a submission in which every question is answered correctly records score 100
  and is passed.
\<close>

theorem all_correct_full_marks:
  assumes "getQuizById quizId w = (Some q, w1)"
      and "submitQuizResult userId quizId answers timeSpent w = (Inr r, w')"
      and "questions_of q \<noteq> []"
      and "list_all (answered_correctly answers) (questions_of q)"
      and "case passing_score q of None \<Rightarrow> True | Some p \<Rightarrow> p \<le> 100"
  shows "score r = 100 \<and> passed r"
proof -
  have "filter (answered_correctly answers) (questions_of q) = questions_of q"
    using assms(4) by (simp add: list_all_iff)
  then have c: "count_correct q answers = count_questions q"
    by (simp add: count_correct_eq count_questions_eq)
  have n: "0 < count_questions q"
    using assms(3) by (simp add: count_questions_eq)
  have "js_or (passing_score q) 70 \<le> 100"
    using assms(5) by (auto simp: js_or_def split: option.splits)
  then have "(of_int (js_or (passing_score q) 70) :: rat) \<le> 100"
    by (metis of_int_le_iff of_int_numeral)
  with submitQuizResult_success [OF assms(1,2)] c n show ?thesis
    by (simp add: compute_score_full compute_passed_def)
qed

theorem all_correct_full_marks_witness:
  "getQuizById 10 demo_world = (Some demo_quiz, demo_world) \<and>
   fst (submitQuizResult 7 10 [pick 100 1000, pick 101 1010] (Some 12) demo_world)
     = Inr all_right \<and>
   questions_of demo_quiz \<noteq> [] \<and>
   list_all (answered_correctly [pick 100 1000, pick 101 1010]) (questions_of demo_quiz) \<and>
   passing_score demo_quiz = Some 70 \<and>
   score all_right = 100 \<and> passed all_right"
proof -
  let ?w' = "snd (submitQuizResult 7 10 [pick 100 1000, pick 101 1010] (Some 12) demo_world)"
  have e: "fst (submitQuizResult 7 10 [pick 100 1000, pick 101 1010] (Some 12) demo_world)
             = Inr all_right"
    by code_simp
  then have s: "submitQuizResult 7 10 [pick 100 1000, pick 101 1010] (Some 12) demo_world
             = (Inr all_right, ?w')"
    by (simp add: prod_eq_iff)
  have q: "questions_of demo_quiz \<noteq> []"
    by code_simp
  have a: "list_all (answered_correctly [pick 100 1000, pick 101 1010]) (questions_of demo_quiz)"
    by code_simp
  have p: "passing_score demo_quiz = Some 70"
    by code_simp
  then have p': "case passing_score demo_quiz of None \<Rightarrow> True | Some p \<Rightarrow> p \<le> 100"
    by simp
  from all_correct_full_marks [OF demo_getQuizById s q a p'] demo_getQuizById e q a p
  show ?thesis by simp
qed

text \<open>
  Quiz 12 has no question, so every question of it is answered correctly by the empty
  submission; the recorded score is 0 and the attempt is not passed.
\<close>

theorem empty_quiz_scores_zero:
  "getQuizById 12 demo_world
     = (Some (select_quiz demo_world (demo_quiz_row 12 70)), demo_world) \<and>
   list_all (answered_correctly [])
     (questions_of (select_quiz demo_world (demo_quiz_row 12 70))) \<and>
   fst (submitQuizResult 7 12 [] None demo_world) =
     Inr \<lparr>r_id = 2000, r_user_id = 7, r_quiz_id = 12, score = 0, total_questions = 0,
          correct_answers = 0, time_taken_minutes = None, passed = False, attempt_number = 1,
          answers_data = []\<rparr>"
  by code_simp

subsection \<open>Points\<close>

lemma score_question_points:
  "score_question answers n (x\<lparr>points := p\<rparr>) = score_question answers n x"
  by (simp add: score_question_def split: option.splits)

lemma select_question_repoint:
  "select_question (repoint f w) (x\<lparr>q_points := p\<rparr>) = (select_question w x)\<lparr>points := p\<rparr>"
  by (simp add: select_question_def repoint_def)

lemma foldl_score_question_points:
  "foldl (score_question answers) n (map (\<lambda>x. (g x)\<lparr>points := h x\<rparr>) xs)
     = foldl (score_question answers) n (map g xs)"
  by (induction xs arbitrary: n) (simp_all add: score_question_points)

lemma questions_repoint:
  "map (select_question (repoint f w)) (filter (\<lambda>q. q_quiz_id q = i) (quiz_questions_table (repoint f w)))
   = map (\<lambda>x. (select_question w x)\<lparr>points := f x\<rparr>) (filter (\<lambda>q. q_quiz_id q = i) (quiz_questions_table w))"
  by (simp add: repoint_def filter_map comp_def select_question_def)

lemma count_correct_repoint:
  "count_correct (select_quiz (repoint f w) z) answers = count_correct (select_quiz w z) answers"
  by (simp add: count_correct_def select_quiz_def questions_repoint foldl_score_question_points)

lemma count_questions_repoint:
  "count_questions (select_quiz (repoint f w) z) = count_questions (select_quiz w z)"
  by (simp add: count_questions_def select_quiz_def questions_repoint)

lemma passing_score_repoint:
  "passing_score (select_quiz (repoint f w) z) = passing_score (select_quiz w z)"
  by (simp add: select_quiz_def)

lemma repoint_fields:
  "formations (repoint f w) = formations w" "quizzes (repoint f w) = quizzes w"
  "quiz_answers_table (repoint f w) = quiz_answers_table w"
  "user_quiz_results (repoint f w) = user_quiz_results w" "next_id (repoint f w) = next_id w"
  "outages (repoint f w) = outages w"
  by (simp_all add: repoint_def)

lemma pg_next_repoint: "pg_next (repoint f w) = (fst (pg_next w), repoint f (snd (pg_next w)))"
  by (cases "outages w") (simp_all add: pg_next_def repoint_def)

lemma select_previous_attempts_repoint:
  "select_previous_attempts userId quizId (repoint f w) =
     (fst (select_previous_attempts userId quizId w),
      repoint f (snd (select_previous_attempts userId quizId w)))"
  by (simp add: select_previous_attempts_def pg_next_repoint repoint_fields
           split: prod.splits option.splits)

lemma insert_result_repoint:
  "insert_result row (repoint f w) =
     (fst (insert_result row w), repoint f (snd (insert_result row w)))"
proof (cases "pg_next w")
  case (Pair x w1)
  then show ?thesis
    by (cases x) (simp_all add: insert_result_def pg_next_repoint repoint_fields Let_def,
                  simp add: repoint_def)
qed

lemma getQuizById_repoint_None:
  assumes "getQuizById quizId w = (None, w1)"
  shows "getQuizById quizId (repoint f w) = (None, repoint f w1)"
  using assms
  by (auto simp: getQuizById_def pg_next_repoint repoint_fields single_def
           split: prod.splits option.splits sum.splits list.splits)

lemma getQuizById_repoint_Some:
  assumes "getQuizById quizId w = (Some q, w1)"
  shows "\<exists>q'. getQuizById quizId (repoint f w) = (Some q', repoint f w1) \<and>
              count_correct q' answers = count_correct q answers \<and>
              count_questions q' = count_questions q \<and>
              passing_score q' = passing_score q"
  using assms
  by (auto simp: getQuizById_def pg_next_repoint repoint_fields single_def
                 count_correct_repoint count_questions_repoint passing_score_repoint
           split: prod.splits option.splits sum.splits list.splits)

text \<open>
  C9. A submission on a store whose questions carry other points records the same row
  (the same score and the same \<open>passed\<close> among its fields) or fails with the same
  error, and leaves the same store: \<open>points\<close> is never read.
\<close>

theorem points_never_influence_scoring:
  "submitQuizResult userId quizId answers timeSpent (repoint f w)
     = (fst (submitQuizResult userId quizId answers timeSpent w),
        repoint f (snd (submitQuizResult userId quizId answers timeSpent w)))"
proof -
  obtain x w1 where g: "getQuizById quizId w = (x, w1)"
    by (cases "getQuizById quizId w")
  show ?thesis
  proof (cases x)
    case None
    with g getQuizById_repoint_None [of quizId w w1 f] show ?thesis
      by (simp add: submitQuizResult_def)
  next
    case (Some q)
    with g getQuizById_repoint_Some [of quizId w q w1 f answers]
    obtain q' where q': "getQuizById quizId (repoint f w) = (Some q', repoint f w1)"
      "count_correct q' answers = count_correct q answers"
      "count_questions q' = count_questions q" "passing_score q' = passing_score q"
      by auto
    show ?thesis
      using g Some
      by (simp add: submitQuizResult_def q' compute_passed_def Let_def
            select_previous_attempts_repoint insert_result_repoint
            split: prod.splits sum.splits)
  qed
qed

theorem points_never_influence_scoring_witness:
  "fst (submitQuizResult 7 10 [pick 100 1000, write_text 101 ''because''] None
          (repoint (\<lambda>q. 5 * q_points q + q_order_index q) demo_world)) = Inr half_right \<and>
   map q_points (quiz_questions_table (repoint (\<lambda>q. 5 * q_points q + q_order_index q) demo_world))
     = [5, 6]"
proof -
  have e: "fst (submitQuizResult 7 10 [pick 100 1000, write_text 101 ''because''] None
                  demo_world) = Inr half_right"
    by code_simp
  have p: "map q_points
             (quiz_questions_table (repoint (\<lambda>q. 5 * q_points q + q_order_index q) demo_world))
           = [5, 6]"
    by (simp add: repoint_def demo_world_def)
  from points_never_influence_scoring
         [of 7 10 "[pick 100 1000, write_text 101 ''because'']" None
             "\<lambda>q. 5 * q_points q + q_order_index q" demo_world] e p
  show ?thesis by simp
qed

subsection \<open>Question types and text answers\<close>

lemma answered_correctly_retype_retext:
  "answered_correctly (retext g answers) (x\<lparr>question_type := t\<rparr>) = answered_correctly answers x"
proof -
  have "find (\<lambda>a. questionId a = i) (retext g answers)
          = map_option (\<lambda>a. a\<lparr>textAnswer := g a\<rparr>) (find (\<lambda>a. questionId a = i) answers)" for i
    by (induction answers) (simp_all add: retext_def)
  then show ?thesis
    by (auto simp: answered_correctly_def submitted_for_def correct_answer_of_def
             split: option.splits)
qed

lemma questions_of_retype:
  "questions_of (retype f q) = map (\<lambda>x. x\<lparr>question_type := f x\<rparr>) (questions_of q)"
  by (simp add: questions_of_def retype_def split: option.splits)

lemma filter_answered_retype:
  "length (filter (answered_correctly (retext g answers)) (map (\<lambda>x. x\<lparr>question_type := f x\<rparr>) xs))
     = length (filter (answered_correctly answers) xs)"
  by (induction xs) (simp_all add: answered_correctly_retype_retext)

lemma count_correct_retype_retext:
  "count_correct (retype f q) (retext g answers) = count_correct q answers"
  by (simp only: count_correct_eq questions_of_retype filter_answered_retype)

lemma score_question_no_answerId:
  assumes "case submitted_for answers (qq_id question) of None \<Rightarrow> True
           | Some ua \<Rightarrow> answerId ua = None"
  shows "score_question answers n question = n"
  using assms by (auto simp: score_question_def submitted_for_def split: option.splits)

text \<open>
  C5, as amended. The scoring reads neither \<open>question_type\<close> nor \<open>textAnswer\<close>: giving
  the questions other types and the submitted answers other texts leaves
  \<open>correct_answers\<close> as it is; and a question, of type text or not, whose submitted
  answer carries no \<open>answerId\<close> is not counted, whatever its \<open>textAnswer\<close>.
\<close>

theorem scoring_ignores_type_and_text:
  "count_correct (retype f q) (retext g answers) = count_correct q answers \<and>
   ((case submitted_for answers (qq_id question) of None \<Rightarrow> True
     | Some ua \<Rightarrow> answerId ua = None)
      \<longrightarrow> score_question answers n question = n)"
  using count_correct_retype_retext score_question_no_answerId by blast

theorem scoring_ignores_type_and_text_witness:
  "count_correct (retype (\<lambda>x. Text) demo_quiz) (retext (\<lambda>a. Some ''because'') [pick 100 1000, write_text 101 ''x'']) = 1 \<and>
   submitted_for [pick 100 1000, write_text 101 ''x''] 101 = Some (write_text 101 ''x'') \<and>
   answerId (write_text 101 ''x'') = None \<and>
   score_question [pick 100 1000, write_text 101 ''x''] 1 (questions_of demo_quiz ! 1) = 1"
proof -
  have c: "count_correct demo_quiz [pick 100 1000, write_text 101 ''x''] = 1"
    by code_simp
  have i: "qq_id (questions_of demo_quiz ! 1) = 101"
    by code_simp
  have s: "submitted_for [pick 100 1000, write_text 101 ''x''] 101 = Some (write_text 101 ''x'')"
    by code_simp
  have a: "answerId (write_text 101 ''x'') = None"
    by (simp add: write_text_def)
  from scoring_ignores_type_and_text
         [of "\<lambda>x. Text" demo_quiz "\<lambda>a. Some ''because''" "[pick 100 1000, write_text 101 ''x'']"
             "questions_of demo_quiz ! 1" 1]
       c i s a
  show ?thesis by simp
qed

text \<open>
  Question 101 of quiz 10 is of type text and has the answer 1010 flagged correct. A
  submission that picks the wrong answer of question 100 and names 1010 for question
  101, with a text, has one correct answer: the text question is counted.
\<close>

theorem text_question_counted:
  "map question_type (questions_of demo_quiz) = [Multiple_choice, Text] \<and>
   map qq_id (questions_of demo_quiz) = [100, 101] \<and>
   fst (submitQuizResult 7 10
          [pick 100 1001, \<lparr>questionId = 101, answerId = Some 1010, textAnswer = Some ''because''\<rparr>]
          None demo_world) =
     Inr \<lparr>r_id = 2000, r_user_id = 7, r_quiz_id = 10, score = 50, total_questions = 2,
          correct_answers = 1, time_taken_minutes = None, passed = False, attempt_number = 1,
          answers_data =
            [pick 100 1001,
             \<lparr>questionId = 101, answerId = Some 1010, textAnswer = Some ''because''\<rparr>]\<rparr>"
  by code_simp

section \<open>Attempt numbers\<close>

lemma sorted_last_Max: "sorted xs \<Longrightarrow> xs \<noteq> [] \<Longrightarrow> last xs = Max (set (xs::int list))"
proof (induction xs)
  case Nil
  then show ?case by simp
next
  case (Cons x xs)
  show ?case
  proof (cases "xs = []")
    case True
    then show ?thesis by simp
  next
    case False
    with Cons have l: "last xs = Max (set xs)" by simp
    have "x \<le> last xs" using Cons.prems False by auto
    with l False show ?thesis by (simp add: max_def)
  qed
qed

lemma next_attempt_number_sorted:
  "next_attempt_number (Some (take 1 (rev (sort ns)))) = highest_plus_one ns"
proof (cases "ns = []")
  case True
  then show ?thesis by (simp add: next_attempt_number_def highest_plus_one_def)
next
  case False
  then have s: "sort ns \<noteq> []" using length_sort [of "\<lambda>x. x" ns] by fastforce
  then obtain x xs where r: "rev (sort ns) = x # xs" by (cases "rev (sort ns)") auto
  have "hd (rev (sort ns)) = last (sort ns)" by (rule hd_rev)
  with r have "x = last (sort ns)" by simp
  also have "\<dots> = Max (set (sort ns))" using s by (intro sorted_last_Max) simp_all
  finally show ?thesis using r False
    by (simp add: next_attempt_number_def highest_plus_one_def)
qed

lemma healthy_pg_next: "healthy w \<Longrightarrow> fst (pg_next w) = None"
  by (cases "outages w") (auto simp: healthy_def pg_next_def)

lemma healthy_tl: "healthy w \<Longrightarrow> outages w1 = tl (outages w) \<Longrightarrow> healthy w1"
  by (cases "outages w") (auto simp: healthy_def)

lemma healthy_previous_attempts:
  assumes "healthy w"
  shows "fst (select_previous_attempts userId quizId w) =
           Some (take 1 (rev (sort (map attempt_number
                    (attempts_of userId quizId (user_quiz_results w))))))"
  using healthy_pg_next [OF assms]
  by (auto simp: select_previous_attempts_def pg_next_tables split: prod.splits option.splits)

lemma submitQuizResult_attempt:
  assumes h: "healthy w"
      and s: "submitQuizResult userId quizId answers timeSpent w = (Inr r, w')"
  shows "attempt_number r =
           highest_plus_one (map attempt_number (attempts_of userId quizId (user_quiz_results w)))"
    and "r_user_id r = userId" and "r_quiz_id r = quizId"
    and "user_quiz_results w' = user_quiz_results w @ [r]"
proof -
  obtain x w1 where g: "getQuizById quizId w = (x, w1)"
    by (cases "getQuizById quizId w")
  with s obtain q where x: "x = Some q"
    by (cases x) (auto simp: submitQuizResult_def)
  have h1: "healthy w1" using h getQuizById_tables(7) [OF g] by (rule healthy_tl)
  have u: "user_quiz_results w1 = user_quiz_results w" using getQuizById_tables [OF g] by simp
  note r = submitQuizResult_success [OF g [unfolded x] s]
  from r show "attempt_number r =
           highest_plus_one (map attempt_number (attempts_of userId quizId (user_quiz_results w)))"
    by (simp add: healthy_previous_attempts [OF h1] next_attempt_number_sorted u del: One_nat_def)
  from r show "r_user_id r = userId" by simp
  from r show "r_quiz_id r = quizId" by simp
  from r show "user_quiz_results w' = user_quiz_results w @ [r]" by simp
qed

lemma submitQuizResult_Inl:
  assumes "submitQuizResult userId quizId answers timeSpent w = (Inl e, w')"
  shows "user_quiz_results w' = user_quiz_results w"
proof -
  obtain x w1 where g: "getQuizById quizId w = (x, w1)"
    by (cases "getQuizById quizId w")
  obtain prev w2 where p: "select_previous_attempts userId quizId w1 = (prev, w2)"
    by (cases "select_previous_attempts userId quizId w1")
  show ?thesis
    using assms getQuizById_tables [OF g] select_previous_attempts_tables [OF p]
    by (cases x)
       (auto simp: submitQuizResult_def g p insert_result_def Let_def pg_next_tables
             split: prod.splits option.splits sum.splits)
qed

lemma submitQuizResult_outages:
  assumes "healthy w" "submitQuizResult userId quizId answers timeSpent w = (res, w')"
  shows "healthy w'"
proof -
  obtain x w1 where g: "getQuizById quizId w = (x, w1)"
    by (cases "getQuizById quizId w")
  obtain prev w2 where p: "select_previous_attempts userId quizId w1 = (prev, w2)"
    by (cases "select_previous_attempts userId quizId w1")
  have h1: "healthy w1" using assms(1) getQuizById_tables(7) [OF g] by (rule healthy_tl)
  have h2: "healthy w2" using h1 select_previous_attempts_tables(7) [OF p] by (rule healthy_tl)
  have "healthy w3" if "pg_next w2 = (f, w3)" for f w3
    using h2 pg_next_tables(7) [OF that] by (rule healthy_tl)
  then show ?thesis
    using assms(2) h1
    by (cases x)
       (auto simp: submitQuizResult_def g p insert_result_def Let_def healthy_def
             split: prod.splits option.splits sum.splits)
qed

lemma recorded_by_eq: "recorded_by userId quizId ress = attempts_of userId quizId (recorded ress)"
  by (simp add: recorded_by_def recorded_def)

lemma numbered_highest:
  assumes "numbered xs"
  shows "highest_plus_one (map attempt_number xs) = int (length xs) + 1"
proof (cases "xs = []")
  case True
  then show ?thesis by (simp add: highest_plus_one_def)
next
  case False
  then have n: "1 \<le> int (length xs)" by (cases xs) simp_all
  have "set (map attempt_number xs) = {1..int (length xs)}"
    using assms by (simp only: numbered_def set_upto)
  moreover have "Max {1..int (length xs)} = int (length xs)"
    using n by (intro Max_eqI) simp_all
  ultimately show ?thesis using False by (simp add: highest_plus_one_def)
qed

lemma numbered_snoc:
  assumes "numbered xs" "attempt_number r = int (length xs) + 1"
  shows "numbered (xs @ [r])"
proof -
  have "[1..int (length xs) + 1] = [1..int (length xs)] @ [int (length xs) + 1]"
    using upto_rec2 [of 1 "int (length xs) + 1"] by simp
  with assms show ?thesis by (simp add: numbered_def add.commute)
qed

lemma attempts_of_append:
  "attempts_of u q (xs @ ys) = attempts_of u q xs @ attempts_of u q ys"
  by (simp add: attempts_of_def)

lemma submit_step_numbered:
  assumes h: "healthy w"
      and n: "numbered (attempts_of u q (user_quiz_results w))"
      and s: "submitQuizResult userId quizId answers timeSpent w = (res, w1)"
  shows "user_quiz_results w1 = user_quiz_results w @ recorded [res] \<and>
         numbered (attempts_of u q (user_quiz_results w1)) \<and> healthy w1"
proof (cases res)
  case (Inl e)
  with s submitQuizResult_Inl [of userId quizId answers timeSpent w e w1] n
    submitQuizResult_outages [OF h s]
  show ?thesis by (simp add: recorded_def)
next
  case (Inr r)
  note a = submitQuizResult_attempt [OF h s [unfolded Inr]]
  have "numbered (attempts_of u q (user_quiz_results w @ [r]))"
  proof (cases "userId = u \<and> quizId = q")
    case True
    then have "attempts_of u q (user_quiz_results w @ [r])
                 = attempts_of u q (user_quiz_results w) @ [r]"
      using a(2,3) by (simp add: attempts_of_def)
    moreover have "attempt_number r = int (length (attempts_of u q (user_quiz_results w))) + 1"
      using a(1) True numbered_highest [OF n] by simp
    ultimately show ?thesis using numbered_snoc [OF n] by simp
  next
    case False
    then have "attempts_of u q (user_quiz_results w @ [r]) = attempts_of u q (user_quiz_results w)"
      using a(2,3) by (auto simp: attempts_of_def)
    with n show ?thesis by simp
  qed
  with a(4) Inr submitQuizResult_outages [OF h s] show ?thesis
    by (simp add: recorded_def)
qed

lemma submit_all_numbered:
  assumes "healthy w" "numbered (attempts_of u q (user_quiz_results w))"
  shows "user_quiz_results (snd (submit_all subs w))
           = user_quiz_results w @ recorded (fst (submit_all subs w)) \<and>
         numbered (attempts_of u q (user_quiz_results (snd (submit_all subs w))))"
  using assms
proof (induction subs arbitrary: w)
  case Nil
  then show ?case by (simp add: recorded_def)
next
  case (Cons sub subs)
  obtain userId quizId answers timeSpent where sub: "sub = (userId, quizId, answers, timeSpent)"
    by (cases sub)
  obtain res w1 where s: "submitQuizResult userId quizId answers timeSpent w = (res, w1)"
    by (cases "submitQuizResult userId quizId answers timeSpent w")
  note st = submit_step_numbered [OF Cons.prems s]
  from st have "healthy w1" "numbered (attempts_of u q (user_quiz_results w1))" by blast+
  note ih = Cons.IH [OF this]
  have f: "fst (submit_all (sub # subs) w) = res # fst (submit_all subs w1)"
    and g: "snd (submit_all (sub # subs) w) = snd (submit_all subs w1)"
    by (simp_all add: sub s split: prod.splits)
  have "user_quiz_results (snd (submit_all subs w1))
          = (user_quiz_results w @ recorded [res]) @ recorded (fst (submit_all subs w1))"
    using ih st by simp
  also have "\<dots> = user_quiz_results w @ recorded (res # fst (submit_all subs w1))"
    by (simp add: recorded_def)
  finally have a: "user_quiz_results (snd (submit_all subs w1))
          = user_quiz_results w @ recorded (res # fst (submit_all subs w1))" .
  from ih have b: "numbered (attempts_of u q (user_quiz_results (snd (submit_all subs w1))))"
    by blast
  show ?case unfolding f g using a b by blast
qed

lemma healthy_getQuizById:
  assumes "healthy w" "filter (\<lambda>z. z_id z = quizId) (quizzes w) = [z]"
  shows "\<exists>q. fst (getQuizById quizId w) = Some q"
  using healthy_pg_next [OF assms(1)] assms(2)
  by (auto simp: getQuizById_def pg_next_tables single_def split: prod.splits option.splits)

lemma submitQuizResult_succeeds:
  assumes h: "healthy w" and z: "filter (\<lambda>z. z_id z = quizId) (quizzes w) = [z]"
  shows "\<exists>r. fst (submitQuizResult userId quizId answers timeSpent w) = Inr r"
proof -
  obtain x w1 where g: "getQuizById quizId w = (x, w1)"
    by (cases "getQuizById quizId w")
  with healthy_getQuizById [OF h z] obtain q where x: "x = Some q" by auto
  obtain prev w2 where p: "select_previous_attempts userId quizId w1 = (prev, w2)"
    by (cases "select_previous_attempts userId quizId w1")
  have h1: "healthy w1" using h getQuizById_tables(7) [OF g] by (rule healthy_tl)
  have h2: "healthy w2" using h1 select_previous_attempts_tables(7) [OF p] by (rule healthy_tl)
  show ?thesis
    using healthy_pg_next [OF h2]
    by (auto simp: submitQuizResult_def g x p insert_result_def Let_def
             split: prod.splits option.splits)
qed

lemma submitQuizResult_quizzes:
  "quizzes (snd (submitQuizResult userId quizId answers timeSpent w)) = quizzes w"
proof -
  obtain x w1 where g: "getQuizById quizId w = (x, w1)"
    by (cases "getQuizById quizId w")
  obtain prev w2 where p: "select_previous_attempts userId quizId w1 = (prev, w2)"
    by (cases "select_previous_attempts userId quizId w1")
  show ?thesis
    using getQuizById_tables [OF g] select_previous_attempts_tables [OF p]
    by (cases x)
       (auto simp: submitQuizResult_def g p insert_result_def Let_def pg_next_tables
             split: prod.splits option.splits sum.splits)
qed

lemma submit_all_by_user:
  assumes "healthy w" "filter (\<lambda>z. z_id z = quizId) (quizzes w) = [z]"
  shows "\<exists>rs. fst (submit_all (by_user userId quizId ats) w) = map Inr rs \<and>
              length rs = length ats \<and>
              recorded_by userId quizId (fst (submit_all (by_user userId quizId ats) w)) = rs"
  using assms
proof (induction ats arbitrary: w)
  case Nil
  then show ?case by (simp add: by_user_def recorded_by_def attempts_of_def)
next
  case (Cons sub ats)
  obtain answers timeSpent where sub: "sub = (answers, timeSpent)" by (cases sub)
  obtain res w1 where s: "submitQuizResult userId quizId answers timeSpent w = (res, w1)"
    by (cases "submitQuizResult userId quizId answers timeSpent w")
  from submitQuizResult_succeeds [OF Cons.prems, of userId answers timeSpent] s
  obtain r where r: "res = Inr r" by auto
  have h1: "healthy w1" using Cons.prems(1) s by (rule submitQuizResult_outages)
  have q1: "filter (\<lambda>z. z_id z = quizId) (quizzes w1) = [z]"
    using submitQuizResult_quizzes [of userId quizId answers timeSpent w] s Cons.prems(2) by simp
  from Cons.IH [OF h1 q1] obtain rs where
    rs: "fst (submit_all (by_user userId quizId ats) w1) = map Inr rs" "length rs = length ats"
        "recorded_by userId quizId (fst (submit_all (by_user userId quizId ats) w1)) = rs"
    by blast
  have u: "r_user_id r = userId" "r_quiz_id r = quizId"
    using submitQuizResult_attempt(2,3) [OF Cons.prems(1) s [unfolded r]] by simp_all
  have f: "fst (submit_all (by_user userId quizId (sub # ats)) w)
             = Inr r # fst (submit_all (by_user userId quizId ats) w1)"
    by (simp add: by_user_def sub s r split: prod.splits)
  have "recorded_by userId quizId (Inr r # fst (submit_all (by_user userId quizId ats) w1))
          = r # recorded_by userId quizId (fst (submit_all (by_user userId quizId ats) w1))"
    using u by (simp add: recorded_by_def attempts_of_def)
  with rs f show ?case
    by (intro exI [of _ "r # rs"]) simp
qed

text \<open>
  On a healthy service, the attempt number that a submission records is 1 when the
  user has no earlier attempt on the quiz, and otherwise 1 plus the highest attempt
  number of the user's earlier attempts on it. In a run of submissions, one after the
  other, that starts where the user has no attempt on the quiz, the recorded attempts
  of the user on the quiz are numbered 1, 2, ..., N in order; and when the user submits
  N times on an existing quiz, every submission is recorded and the Nth has attempt
  number N.
\<close>

lemma healthy_attempt_numbering:
  assumes "healthy w"
  shows "(submitQuizResult userId quizId answers timeSpent w = (Inr r, w') \<longrightarrow>
            attempt_number r =
              (if attempts_of userId quizId (user_quiz_results w) = [] then 1
               else 1 + Max (attempt_number `
                              set (attempts_of userId quizId (user_quiz_results w))))) \<and>
         (attempts_of userId quizId (user_quiz_results w) = [] \<longrightarrow>
            map attempt_number (recorded_by userId quizId (fst (submit_all subs w)))
              = [1..int (length (recorded_by userId quizId (fst (submit_all subs w))))]) \<and>
         (attempts_of userId quizId (user_quiz_results w) = [] \<and>
          filter (\<lambda>z. z_id z = quizId) (quizzes w) = [z] \<longrightarrow>
            map (map_sum error_message attempt_number)
              (fst (submit_all (by_user userId quizId ats) w))
              = map Inr [1..int (length ats)])"
proof -
  have run: "map attempt_number (recorded_by userId quizId (fst (submit_all ss w)))
              = [1..int (length (recorded_by userId quizId (fst (submit_all ss w))))]"
    if e: "attempts_of userId quizId (user_quiz_results w) = []" for ss
  proof -
    from e have "numbered (attempts_of userId quizId (user_quiz_results w))"
      by (simp add: numbered_def)
    note n = submit_all_numbered [OF assms this, of ss]
    have "attempts_of userId quizId (user_quiz_results (snd (submit_all ss w)))
            = recorded_by userId quizId (fst (submit_all ss w))"
      using n e by (simp add: recorded_by_eq attempts_of_append)
    with n show ?thesis by (simp add: numbered_def)
  qed
  show ?thesis
  proof (intro conjI impI)
    assume "submitQuizResult userId quizId answers timeSpent w = (Inr r, w')"
    from submitQuizResult_attempt(1) [OF assms this]
    show "attempt_number r =
              (if attempts_of userId quizId (user_quiz_results w) = [] then 1
               else 1 + Max (attempt_number `
                              set (attempts_of userId quizId (user_quiz_results w))))"
      by (simp add: highest_plus_one_def)
  next
    assume "attempts_of userId quizId (user_quiz_results w) = []"
    then show "map attempt_number (recorded_by userId quizId (fst (submit_all subs w)))
              = [1..int (length (recorded_by userId quizId (fst (submit_all subs w))))]"
      by (rule run)
  next
    assume a: "attempts_of userId quizId (user_quiz_results w) = [] \<and>
               filter (\<lambda>z. z_id z = quizId) (quizzes w) = [z]"
    then obtain rs where
      rs: "fst (submit_all (by_user userId quizId ats) w) = map Inr rs" "length rs = length ats"
          "recorded_by userId quizId (fst (submit_all (by_user userId quizId ats) w)) = rs"
      using submit_all_by_user [OF assms, of quizId z userId ats] by blast
    from run [of "by_user userId quizId ats"] a rs
    have "map attempt_number rs = [1..int (length ats)]" by simp
    then have "map (map_sum error_message attempt_number) (map Inr rs)
                 = map Inr [1..int (length ats)]"
      by (simp add: comp_def flip: map_map [of Inr attempt_number rs, unfolded comp_def])
    with rs(1) show "map (map_sum error_message attempt_number)
              (fst (submit_all (by_user userId quizId ats) w))
              = map Inr [1..int (length ats)]"
      by simp
  qed
qed

lemma healthy_attempt_numbering_example:
  "healthy demo_world \<and> attempts_of 7 10 (user_quiz_results demo_world) = [] \<and>
   filter (\<lambda>z. z_id z = 10) (quizzes demo_world) = [demo_quiz_row 10 70] \<and>
   map (map_sum error_message attempt_number) (fst (submit_all five_submissions demo_world))
     = [Inr 1, Inr 2, Inr 1, Inl quiz_non_trouve, Inr 3] \<and>
   map attempt_number (recorded_by 7 10 (fst (submit_all five_submissions demo_world)))
     = [1, 2, 3] \<and>
   map (map_sum error_message attempt_number)
     (fst (submit_all (by_user 7 10 [([pick 100 1000], None), ([], None), ([], Some 3)])
             demo_world))
     = [Inr 1, Inr 2, Inr 3] \<and>
   healthy after_first_attempt \<and>
   map attempt_number (attempts_of 7 10 (user_quiz_results after_first_attempt)) = [1] \<and>
   fst (submitQuizResult 7 10 [pick 100 1000, pick 101 1010] (Some 12) after_first_attempt)
     = Inr second_attempt \<and>
   attempt_number second_attempt = 2"
proof -
  let ?s = "submitQuizResult 7 10 [pick 100 1000, pick 101 1010] (Some 12) after_first_attempt"
  have h: "healthy demo_world"
    by (simp add: healthy_def demo_world_def)
  have e: "attempts_of 7 10 (user_quiz_results demo_world) = []"
    by (simp add: attempts_of_def demo_world_def)
  have z: "filter (\<lambda>z. z_id z = 10) (quizzes demo_world) = [demo_quiz_row 10 70]"
    by (simp add: demo_world_def demo_quiz_row_def)
  have l: "length (recorded_by 7 10 (fst (submit_all five_submissions demo_world))) = 3"
    by code_simp
  have m: "map (map_sum error_message attempt_number)
             (fst (submit_all five_submissions demo_world))
           = [Inr 1, Inr 2, Inr 1, Inl quiz_non_trouve, Inr 3]"
    by code_simp
  have u: "[1..3] = [1, 2, 3::int]"
    by code_simp
  have h1: "healthy after_first_attempt"
    by code_simp
  have a1: "map attempt_number (attempts_of 7 10 (user_quiz_results after_first_attempt)) = [1]"
    by code_simp
  have f: "fst ?s = Inr second_attempt"
    by code_simp
  then have s: "?s = (Inr second_attempt, snd ?s)"
    by (simp add: prod_eq_iff)
  have n: "attempts_of 7 10 (user_quiz_results after_first_attempt) \<noteq> []"
    using a1 by auto
  have x: "Max (attempt_number ` set (attempts_of 7 10 (user_quiz_results after_first_attempt)))
             = 1"
    using a1 by (metis Max_singleton list.set_map list.simps(15) empty_set)
  from healthy_attempt_numbering [OF h, of 7 10 "[]" None second_attempt demo_world five_submissions
          "demo_quiz_row 10 70" "[([pick 100 1000], None), ([], None), ([], Some 3)]"]
       healthy_attempt_numbering [OF h1, of 7 10 "[pick 100 1000, pick 101 1010]" "Some 12"
          second_attempt "snd ?s" "[]" undefined "[]"]
       h e z l m u h1 a1 f s n x
  show ?thesis by simp
qed

text \<open>
  C4. The query for the previous attempts is the one query of the service whose error
  is never read. User 7 submits twice on quiz 10, one submission after the other, and
  the query for the previous attempts of the second submission (the fifth query of the
  run) fails: both submissions are recorded, and both with attempt number 1.
\<close>

theorem failed_attempts_query_restarts_numbering:
  "outages flaky_world = [None, None, None, None, Some ''timeout''] \<and>
   attempts_of 7 10 (user_quiz_results flaky_world) = [] \<and>
   map (map_sum error_message attempt_number)
     (fst (submit_all (by_user 7 10 [([pick 100 1000], None), ([pick 100 1000], None)])
             flaky_world))
     = [Inr 1, Inr 1] \<and>
   map attempt_number
     (attempts_of 7 10
        (user_quiz_results
           (snd (submit_all (by_user 7 10 [([pick 100 1000], None), ([pick 100 1000], None)])
                   flaky_world))))
     = [1, 1]"
  by code_simp

section \<open>A submission on an unknown quiz\<close>

lemma getQuizById_missing:
  "filter (\<lambda>z. z_id z = quizId) (quizzes w) = [] \<Longrightarrow> fst (getQuizById quizId w) = None"
  by (auto simp: getQuizById_def pg_next_tables single_def split: prod.splits option.splits)

lemma same_tables_getQuizById: "same_tables w (snd (getQuizById quizId w))"
  using getQuizById_tables [of quizId w "fst (getQuizById quizId w)" "snd (getQuizById quizId w)"]
  by (simp add: same_tables_def)

lemma quiz_non_trouve_nonempty: "quiz_non_trouve \<noteq> []"
  by (simp add: quiz_non_trouve_def)

text \<open>
  C10. When the quiz id resolves to no quiz, \<open>submitQuizResult\<close> throws the error
  \<open>Quiz non trouve\<close>, no table of the store changes (no result row is created), and
  the controller answers with HTTP 500 and that message, not with 404.
\<close>

theorem unknown_quiz_rejected:
  assumes "fst (getQuizById quizId w) = None"
  shows "fst (submitQuizResult userId quizId answers timeSpent w) = Inl (Error quiz_non_trouve) \<and>
         same_tables w (snd (submitQuizResult userId quizId answers timeSpent w)) \<and>
         fst (FormationController_submitQuiz quizId userId
                (Inr \<lparr>dto_answers = answers, dto_timeSpent = timeSpent\<rparr>) w) =
           \<lparr>http_status = 500, success = False, body_data = None, message = quiz_non_trouve,
            errors = None\<rparr> \<and>
         same_tables w (snd (FormationController_submitQuiz quizId userId
                (Inr \<lparr>dto_answers = answers, dto_timeSpent = timeSpent\<rparr>) w))"
proof -
  obtain w1 where g: "getQuizById quizId w = (None, w1)"
    using assms by (cases "getQuizById quizId w") simp
  have s: "submitQuizResult userId quizId answers timeSpent w = (Inl (Error quiz_non_trouve), w1)"
    by (simp add: submitQuizResult_def g)
  have t: "same_tables w w1"
    using same_tables_getQuizById [of w quizId] g by simp
  show ?thesis
    by (simp add: s t FormationController_submitQuiz_def catch_error_def quiz_non_trouve_nonempty)
qed

theorem unknown_quiz_rejected_witness:
  "filter (\<lambda>z. z_id z = 99) (quizzes demo_world) = [] \<and>
   fst (getQuizById 99 demo_world) = None \<and>
   fst (submitQuizResult 7 99 [pick 100 1000] None demo_world) = Inl (Error quiz_non_trouve) \<and>
   user_quiz_results (snd (submitQuizResult 7 99 [pick 100 1000] None demo_world)) = [] \<and>
   http_status (fst (FormationController_submitQuiz 99 7
      (Inr \<lparr>dto_answers = [pick 100 1000], dto_timeSpent = None\<rparr>) demo_world)) = 500"
proof -
  have m: "filter (\<lambda>z. z_id z = 99) (quizzes demo_world) = []"
    by (simp add: demo_world_def demo_quiz_row_def)
  have g: "fst (getQuizById 99 demo_world) = None"
    using m by (rule getQuizById_missing)
  have r: "user_quiz_results demo_world = []"
    by (simp add: demo_world_def)
  from unknown_quiz_rejected [OF g, of 7 "[pick 100 1000]" None] m g r
  show ?thesis by (simp add: same_tables_def)
qed

section \<open>Fetching a formation\<close>

lemma getFormationById_never_throws: "\<exists>x. fst (getFormationById formationId w) = Inr x"
  by (auto simp: getFormationById_def split: prod.splits option.splits sum.splits)

lemma getFormationById_failure:
  assumes "outages w = Some m # rest"
  shows "getFormationById formationId w = (Inr None, w\<lparr>outages := rest\<rparr>)"
  using assms by (simp add: getFormationById_def pg_next_def)

lemma getFormationById_missing:
  assumes "filter (\<lambda>f. f_id f = formationId) (formations w) = []"
  shows "fst (getFormationById formationId w) = Inr None"
  using assms
  by (auto simp: getFormationById_def pg_next_tables single_def split: prod.splits option.splits)

text \<open>
  C6, as amended. When the fetch of a formation by id meets a persistence failure, with
  whatever message, the controller answers exactly as for a formation that does not
  exist: HTTP 404 with \<open>Formation non trouvee\<close>. The service returns \<open>null\<close> for every
  error that the client reports, and the fetch never answers with HTTP 500.
\<close>

theorem fetch_errors_all_404:
  "(outages w = Some m # rest \<longrightarrow>
      fst (FormationController_getFormationById formationId w) = formation_not_found) \<and>
   (filter (\<lambda>f. f_id f = formationId) (formations w) = [] \<longrightarrow>
      fst (FormationController_getFormationById formationId w) = formation_not_found) \<and>
   http_status (fst (FormationController_getFormationById formationId w)) \<noteq> 500"
proof (intro conjI impI)
  assume "outages w = Some m # rest"
  from getFormationById_failure [OF this]
  show "fst (FormationController_getFormationById formationId w) = formation_not_found"
    by (simp add: FormationController_getFormationById_def)
next
  assume "filter (\<lambda>f. f_id f = formationId) (formations w) = []"
  from getFormationById_missing [OF this]
  show "fst (FormationController_getFormationById formationId w) = formation_not_found"
    by (cases "getFormationById formationId w")
       (simp add: FormationController_getFormationById_def)
next
  obtain x w1 where g: "getFormationById formationId w = (Inr x, w1)"
    using getFormationById_never_throws [of formationId w]
    by (cases "getFormationById formationId w") auto
  show "http_status (fst (FormationController_getFormationById formationId w)) \<noteq> 500"
    by (cases x) (simp_all add: FormationController_getFormationById_def g formation_not_found_def)
qed

theorem fetch_errors_all_404_witness:
  "fst (FormationController_getFormationById 1
          (demo_world\<lparr>outages := [Some ''timeout'', None]\<rparr>)) = formation_not_found \<and>
   filter (\<lambda>f. f_id f = 2) (formations demo_world) = [] \<and>
   fst (FormationController_getFormationById 2 demo_world) = formation_not_found \<and>
   http_status formation_not_found = 404"
proof -
  have o: "outages (demo_world\<lparr>outages := [Some ''timeout'', None]\<rparr>) = Some ''timeout'' # [None]"
    by simp
  have m: "filter (\<lambda>f. f_id f = 2) (formations demo_world) = []"
    by (simp add: demo_world_def demo_formation_def)
  from fetch_errors_all_404 [of "demo_world\<lparr>outages := [Some ''timeout'', None]\<rparr>" "''timeout''" "[None]" 1]
       fetch_errors_all_404 [of demo_world "''x''" "[]" 2] o m
  show ?thesis by (simp add: formation_not_found_def)
qed

text \<open>
  Formation 1 exists. When the query fails with \<open>connection refused\<close>, the answer is
  404 with the not-found message; it is neither 500 nor does it carry the message of
  the failure.
\<close>

theorem outage_reported_as_404:
  "fst (FormationController_getFormationById 1 (demo_world\<lparr>outages := [Some ''connection refused'']\<rparr>))
     = \<lparr>http_status = 404, success = False, body_data = None, message = formation_non_trouvee,
        errors = None\<rparr> \<and>
   http_status (fst (FormationController_getFormationById 1 demo_world)) = 200"
  by code_simp

section \<open>Updating a formation\<close>




section \<open>Creating a quiz\<close>

lemma questionsToInsert_order_index:
  assumes "i < length questions"
  shows "q_order_index (questionsToInsert quizId questions ! i)
           = js_or (qi_order_index (questions ! i)) i"
  using assms by (simp add: questionsToInsert_def nth_enumerate_eq)

lemma answersToInsert_order_index:
  assumes "i < length answers"
  shows "a_order_index (answersToInsert questionId' answers ! i)
           = js_or (ai_order_index (answers ! i)) i"
  using assms by (simp add: answersToInsert_def nth_enumerate_eq)

lemma single_question_order_index:
  "map q_order_index (questionsToInsert quizId [questionData])
     = [js_or (qi_order_index questionData) 0]"
  by (simp add: questionsToInsert_def enumerate_simps)

text \<open>
  C7. The controller adds each question by a call of its own, so the index that
  \<open>addQuizQuestions\<close> falls back on is always 0; and \<open>order_index || index\<close> replaces an
  explicit 0. On a body with two questions without \<open>order_index\<close>, each with a second
  answer that asks for \<open>order_index\<close> 0, both questions are stored with \<open>order_index\<close> 0
  and the second answers with \<open>order_index\<close> 1.
\<close>

theorem createQuiz_order_index:
  "map qi_order_index (zi_questions demo_quiz_input) = [None, None] \<and>
   map (map ai_order_index \<circ> qi_answers) (zi_questions demo_quiz_input)
     = [[None, Some 0], [None, Some 0]] \<and>
   http_status (fst (FormationController_createQuiz 1 (Inr demo_quiz_input) demo_world)) = 201 \<and>
   map (\<lambda>q. (q_id q, q_question_text q, q_order_index q))
     (filter (\<lambda>q. q_quiz_id q = 2000)
        (quiz_questions_table
           (snd (FormationController_createQuiz 1 (Inr demo_quiz_input) demo_world))))
     = [(2001, Some ''First'', 0), (2004, Some ''Second'', 0)] \<and>
   map (\<lambda>a. (a_question_id a, a_answer_text a, a_order_index a))
     (filter (\<lambda>a. a_question_id a = 2001 \<or> a_question_id a = 2004)
        (quiz_answers_table
           (snd (FormationController_createQuiz 1 (Inr demo_quiz_input) demo_world))))
     = [(2001, Some ''yes'', 0), (2001, Some ''no'', 1),
        (2004, Some ''yes'', 0), (2004, Some ''no'', 1)]"
  by code_simp

end
